theory Spec2Isabelle
  imports Main
begin

section \<open>Validation results\<close>

text \<open>
  The request and document schemas of the backend are pydantic models. Building a model
  from a payload checks every declared field in declaration order (fields of base
  classes first), collects the errors of all fields and raises one ValidationError that
  carries them; without errors the model holds the validated values. A field whose own
  checks fail does not run its \<^verbatim>\<open>@validator\<close> method.

  Payloads are taken as already decoded to the declared types: a key of the payload is
  either absent (\<open>None\<close>) or holds a value of the field's type. Keys that the model does
  not declare are ignored by pydantic; here they are the extension part of a record.
\<close>

datatype verr =
    Missing
  | MaxLength nat
  | MinLength nat
  | NotGe int
  | NotLt int
  | NotLe int
  | MaxItems nat
  | NotEnumMember int
  | NotEmail
  | ValueError string

type_synonym 'a validated = "verr list + 'a"

definition errs :: "'a validated \<Rightarrow> verr list" where
  "errs r = (case r of Inl es \<Rightarrow> es | Inr _ \<Rightarrow> [])"

text \<open>One more field of a model: its errors are appended to those found so far.\<close>

definition field :: "('a \<Rightarrow> 'b) validated \<Rightarrow> 'a validated \<Rightarrow> 'b validated" where
  "field f x =
     (case f of
        Inr g \<Rightarrow> (case x of Inr v \<Rightarrow> Inr (g v) | Inl es \<Rightarrow> Inl es)
      | Inl es \<Rightarrow> Inl (es @ errs x))"

text \<open>\<^verbatim>\<open>Field(...)\<close>: the key must be present.\<close>

definition required_field :: "'a option \<Rightarrow> ('a \<Rightarrow> 'b validated) \<Rightarrow> 'b validated" where
  "required_field v chk = (case v of None \<Rightarrow> Inl [Missing] | Some x \<Rightarrow> chk x)"

text \<open>\<^verbatim>\<open>Optional[T] = None\<close>: an absent key gives \<open>None\<close>.\<close>

definition optional_field :: "'a option \<Rightarrow> ('a \<Rightarrow> 'b validated) \<Rightarrow> 'b option validated" where
  "optional_field v chk =
     (case v of
        None \<Rightarrow> Inr None
      | Some x \<Rightarrow> (case chk x of Inl es \<Rightarrow> Inl es | Inr y \<Rightarrow> Inr (Some y)))"

text \<open>\<^verbatim>\<open>T = d\<close>: an absent key gives the default, which is not validated.\<close>

definition default_field :: "'b \<Rightarrow> 'a option \<Rightarrow> ('a \<Rightarrow> 'b validated) \<Rightarrow> 'b validated" where
  "default_field d v chk = (case v of None \<Rightarrow> Inr d | Some x \<Rightarrow> chk x)"

definition any :: "'a \<Rightarrow> 'a validated" where
  "any x = Inr x"

text \<open>\<^verbatim>\<open>max_length=n\<close> on a \<^verbatim>\<open>str\<close>: fails when \<^verbatim>\<open>len(v) > n\<close>.\<close>

definition max_length :: "nat \<Rightarrow> string \<Rightarrow> string validated" where
  "max_length n s = (if length s > n then Inl [MaxLength n] else Inr s)"

text \<open>\<^verbatim>\<open>ge=a, lt=b\<close> and \<^verbatim>\<open>ge=a, le=b\<close> on an \<^verbatim>\<open>int\<close>; the lower bound is checked first.\<close>

definition ge_lt :: "int \<Rightarrow> int \<Rightarrow> int \<Rightarrow> int validated" where
  "ge_lt a b v =
     (if \<not> v \<ge> a then Inl [NotGe a]
      else if \<not> v < b then Inl [NotLt b]
      else Inr v)"

definition ge_le :: "int \<Rightarrow> int \<Rightarrow> int \<Rightarrow> int validated" where
  "ge_le a b v =
     (if \<not> v \<ge> a then Inl [NotGe a]
      else if \<not> v \<le> b then Inl [NotLe b]
      else Inr v)"

text \<open>
  A \<^verbatim>\<open>List[T]\<close> field: every item is validated and the errors of all items are
  collected.
\<close>

fun items :: "('a \<Rightarrow> 'b validated) \<Rightarrow> 'a list \<Rightarrow> 'b list validated" where
  "items chk [] = Inr []"
| "items chk (x # xs) = field (field (Inr (#)) (chk x)) (items chk xs)"

text \<open>
  \<^verbatim>\<open>max_items=n\<close>: the length is checked before the items are looked at, and a list
  that is too long is rejected without validating its items.
\<close>

definition max_items :: "nat \<Rightarrow> ('a \<Rightarrow> 'b validated) \<Rightarrow> 'a list \<Rightarrow> 'b list validated" where
  "max_items n chk xs = (if length xs > n then Inl [MaxItems n] else items chk xs)"

text \<open>A \<^verbatim>\<open>@validator\<close> method runs on the value of a field that passed its own checks.\<close>

definition validator :: "('b \<Rightarrow> 'b validated) \<Rightarrow> 'b validated \<Rightarrow> 'b validated" where
  "validator f r = (case r of Inl es \<Rightarrow> Inl es | Inr v \<Rightarrow> f v)"


section \<open>Envelopes\<close>

text \<open>
  Modelled from the spec: \<^verbatim>\<open>IvField\<close> (\<^verbatim>\<open>app.models.customs\<close>, not among the
  sources). An envelope's \<^verbatim>\<open>iv\<close> is required, fails when it is empty, and is
  validated by length only, within a fixed window. The window is a parameter.
\<close>

record IvField_window =
  iv_min_length :: nat
  iv_max_length :: nat

definition IvField_iv :: "IvField_window \<Rightarrow> string \<Rightarrow> string validated" where
  "IvField_iv w s =
     (if s = [] then Inl [MinLength 1]
      else if length s < iv_min_length w then Inl [MinLength (iv_min_length w)]
      else if length s > iv_max_length w then Inl [MaxLength (iv_max_length w)]
      else Inr s)"

text \<open>
  The subclasses of \<^verbatim>\<open>IvField\<close> that add one field,
  \<^verbatim>\<open>cipher_text: str = Field(..., max_length=n)\<close>, differ in \<open>n\<close> only.
\<close>

record Envelope_in =
  iv :: "string option"
  cipher_text :: "string option"

record Envelope =
  iv :: string
  cipher_text :: string

definition Envelope_model :: "IvField_window \<Rightarrow> nat \<Rightarrow> 'x Envelope_in_scheme \<Rightarrow> Envelope validated"
  where
  "Envelope_model w n p =
     field (field (Inr (\<lambda>i c. \<lparr>Envelope.iv = i, Envelope.cipher_text = c\<rparr>))
       (required_field (Envelope_in.iv p) (IvField_iv w)))
       (required_field (Envelope_in.cipher_text p) (max_length n))"

definition SurveySecretKeyModel :: "IvField_window \<Rightarrow> 'x Envelope_in_scheme \<Rightarrow> Envelope validated" where
  "SurveySecretKeyModel w = Envelope_model w 240"

definition SurveyKeypairCipherModel :: "IvField_window \<Rightarrow> 'x Envelope_in_scheme \<Rightarrow> Envelope validated" where
  "SurveyKeypairCipherModel w = Envelope_model w 240"

definition SurveyRegexModel :: "IvField_window \<Rightarrow> 'x Envelope_in_scheme \<Rightarrow> Envelope validated" where
  "SurveyRegexModel w = Envelope_model w 128"

definition SurveyDescriptionModel :: "IvField_window \<Rightarrow> 'x Envelope_in_scheme \<Rightarrow> Envelope validated" where
  "SurveyDescriptionModel w = Envelope_model w 1024"

definition SurveyQuestionsModel :: "IvField_window \<Rightarrow> 'x Envelope_in_scheme \<Rightarrow> Envelope validated" where
  "SurveyQuestionsModel w = Envelope_model w 256"

definition TitleModel :: "IvField_window \<Rightarrow> 'x Envelope_in_scheme \<Rightarrow> Envelope validated" where
  "TitleModel w = Envelope_model w 128"

definition AccountKeychainModal :: "IvField_window \<Rightarrow> 'x Envelope_in_scheme \<Rightarrow> Envelope validated" where
  "AccountKeychainModal w = Envelope_model w 82"

text \<open>\<^verbatim>\<open>.dict()\<close> of a validated envelope: every key present.\<close>

definition Envelope_dict :: "Envelope \<Rightarrow> Envelope_in" where
  "Envelope_dict e =
     \<lparr>Envelope_in.iv = Some (Envelope.iv e), Envelope_in.cipher_text = Some (Envelope.cipher_text e)\<rparr>"


section \<open>Account key-derivation parameters\<close>

text \<open>
  \<^verbatim>\<open>RFC_9106_LOW_MEMORY\<close> comes from the argon2 library; the two attributes that
  \<^verbatim>\<open>Argon2Modal\<close> reads are a parameter.
\<close>

record Parameters =
  time_cost :: int
  memory_cost :: int

record Argon2Modal_in =
  salt :: "string option"
  time_cost :: "int option"
  memory_cost :: "int option"

record Argon2Modal =
  salt :: string
  time_cost :: int
  memory_cost :: int

definition Argon2Modal :: "Parameters \<Rightarrow> 'x Argon2Modal_in_scheme \<Rightarrow> Argon2Modal validated" where
  "Argon2Modal prof p =
     field (field (field
       (Inr (\<lambda>s t m. \<lparr>Argon2Modal.salt = s, Argon2Modal.time_cost = t, Argon2Modal.memory_cost = m\<rparr>))
       (required_field (Argon2Modal_in.salt p) (max_length 64)))
       (default_field (Parameters.time_cost prof) (Argon2Modal_in.time_cost p)
          (ge_le (Parameters.time_cost prof - 1) 12)))
       (default_field (Parameters.memory_cost prof) (Argon2Modal_in.memory_cost p)
          (ge_le (Parameters.memory_cost prof - 1) 3355443200))"

text \<open>The values of the profile in the argon2 library.\<close>

definition RFC_9106_LOW_MEMORY :: Parameters where
  "RFC_9106_LOW_MEMORY = \<lparr>Parameters.time_cost = 3, Parameters.memory_cost = 65536\<rparr>"


section \<open>Survey schema\<close>

type_synonym ObjectId = nat
type_synonym datetime = int

subsection \<open>Key material\<close>

record SurveySignPublicKeyModel_in =
  public_key :: "string option"

record SurveySignKeyPairModel_in = SurveySignPublicKeyModel_in +
  iv :: "string option"
  cipher_text :: "string option"

record SurveySignPublicKeyModel =
  public_key :: string

record SurveySignKeyPairModel = SurveySignPublicKeyModel +
  iv :: string
  cipher_text :: string

definition SurveySignPublicKeyModel ::
  "'x SurveySignPublicKeyModel_in_scheme \<Rightarrow> SurveySignPublicKeyModel validated" where
  "SurveySignPublicKeyModel p =
     field (Inr (\<lambda>k. \<lparr>SurveySignPublicKeyModel.public_key = k\<rparr>))
       (required_field (SurveySignPublicKeyModel_in.public_key p) (max_length 44))"

text \<open>
  \<^verbatim>\<open>class SurveySignKeyPairModel(SurveySignPublicKeyModel, IvField)\<close>: the fields of the
  last base come first.
\<close>

definition SurveySignKeyPairModel ::
  "IvField_window \<Rightarrow> 'x SurveySignKeyPairModel_in_scheme \<Rightarrow> SurveySignKeyPairModel validated"
  where
  "SurveySignKeyPairModel w p =
     field (field (field
       (Inr (\<lambda>i k c. \<lparr>SurveySignPublicKeyModel.public_key = k,
                       SurveySignKeyPairModel.iv = i, SurveySignKeyPairModel.cipher_text = c\<rparr>))
       (required_field (SurveySignKeyPairModel_in.iv p) (IvField_iv w)))
       (required_field (SurveySignPublicKeyModel_in.public_key p) (max_length 44)))
       (required_field (SurveySignKeyPairModel_in.cipher_text p) (max_length 240))"

definition SurveySignKeyPairModel_dict :: "SurveySignKeyPairModel \<Rightarrow> SurveySignKeyPairModel_in" where
  "SurveySignKeyPairModel_dict k =
     \<lparr>SurveySignPublicKeyModel_in.public_key = Some (SurveySignPublicKeyModel.public_key k),
      SurveySignKeyPairModel_in.iv = Some (SurveySignKeyPairModel.iv k),
      SurveySignKeyPairModel_in.cipher_text = Some (SurveySignKeyPairModel.cipher_text k)\<rparr>"

record SurveyPublicKeyModel_in =
  public_key :: "Envelope_in option"

record SurveyKeypairModel_in = SurveyPublicKeyModel_in +
  private_key :: "Envelope_in option"

record SurveyPublicKeyModel =
  public_key :: Envelope

record SurveyKeypairModel = SurveyPublicKeyModel +
  private_key :: Envelope

definition SurveyPublicKeyModel ::
  "IvField_window \<Rightarrow> 'x SurveyPublicKeyModel_in_scheme \<Rightarrow> SurveyPublicKeyModel validated" where
  "SurveyPublicKeyModel w p =
     field (Inr (\<lambda>k. \<lparr>SurveyPublicKeyModel.public_key = k\<rparr>))
       (required_field (SurveyPublicKeyModel_in.public_key p) (SurveyKeypairCipherModel w))"

definition SurveyKeypairModel ::
  "IvField_window \<Rightarrow> 'x SurveyKeypairModel_in_scheme \<Rightarrow> SurveyKeypairModel validated" where
  "SurveyKeypairModel w p =
     field (field
       (Inr (\<lambda>k s. \<lparr>SurveyPublicKeyModel.public_key = k, SurveyKeypairModel.private_key = s\<rparr>))
       (required_field (SurveyPublicKeyModel_in.public_key p) (SurveyKeypairCipherModel w)))
       (required_field (SurveyKeypairModel_in.private_key p) (SurveyKeypairCipherModel w))"

definition SurveyKeypairModel_dict :: "SurveyKeypairModel \<Rightarrow> SurveyKeypairModel_in" where
  "SurveyKeypairModel_dict k =
     \<lparr>SurveyPublicKeyModel_in.public_key = Some (Envelope_dict (SurveyPublicKeyModel.public_key k)),
      SurveyKeypairModel_in.private_key = Some (Envelope_dict (SurveyKeypairModel.private_key k))\<rparr>"

subsection \<open>Choices and questions\<close>

record SurveyChoicesModel_in =
  iv :: "string option"
  id' :: "int option"
  cipher_text :: "string option"

record SurveyChoicesModel =
  iv :: string
  id' :: int
  cipher_text :: string

definition SurveyChoicesModel ::
  "IvField_window \<Rightarrow> 'x SurveyChoicesModel_in_scheme \<Rightarrow> SurveyChoicesModel validated" where
  "SurveyChoicesModel w p =
     field (field (field
       (Inr (\<lambda>i n c. \<lparr>SurveyChoicesModel.iv = i, SurveyChoicesModel.id' = n,
                       SurveyChoicesModel.cipher_text = c\<rparr>))
       (required_field (SurveyChoicesModel_in.iv p) (IvField_iv w)))
       (required_field (SurveyChoicesModel_in.id' p) (ge_lt 0 1024)))
       (required_field (SurveyChoicesModel_in.cipher_text p) (max_length 512))"

definition SurveyChoicesModel_dict :: "SurveyChoicesModel \<Rightarrow> SurveyChoicesModel_in" where
  "SurveyChoicesModel_dict c =
     \<lparr>SurveyChoicesModel_in.iv = Some (SurveyChoicesModel.iv c),
      SurveyChoicesModel_in.id' = Some (SurveyChoicesModel.id' c),
      SurveyChoicesModel_in.cipher_text = Some (SurveyChoicesModel.cipher_text c)\<rparr>"

datatype SurveyQuestionType = ShortAnswer | Paragraph | MultipleChoice | SingleChoice

definition SurveyQuestionType :: "int \<Rightarrow> SurveyQuestionType validated" where
  "SurveyQuestionType v =
     (if v = 0 then Inr ShortAnswer
      else if v = 1 then Inr Paragraph
      else if v = 2 then Inr MultipleChoice
      else if v = 3 then Inr SingleChoice
      else Inl [NotEnumMember v])"

fun SurveyQuestionType_value :: "SurveyQuestionType \<Rightarrow> int" where
  "SurveyQuestionType_value ShortAnswer = 0"
| "SurveyQuestionType_value Paragraph = 1"
| "SurveyQuestionType_value MultipleChoice = 2"
| "SurveyQuestionType_value SingleChoice = 3"

record SurveyQuestionModel_in =
  id' :: "int option"
  regex :: "Envelope_in option"
  description :: "Envelope_in option"
  question :: "Envelope_in option"
  choices :: "SurveyChoicesModel_in list option"
  required :: "bool option"
  type :: "int option"

record SurveyQuestionModel =
  id' :: int
  regex :: "Envelope option"
  description :: "Envelope option"
  question :: Envelope
  choices :: "SurveyChoicesModel list option"
  required :: bool
  type :: SurveyQuestionType

text \<open>\<^verbatim>\<open>len(ids) != len(set(ids))\<close> compares the length with the number of distinct ids.\<close>

definition choices_validator ::
  "SurveyChoicesModel list option \<Rightarrow> SurveyChoicesModel list option validated" where
  "choices_validator v =
     (case v of
        None \<Rightarrow> Inr v
      | Some [] \<Rightarrow> Inr v
      | Some cs \<Rightarrow>
          (let ids = map SurveyChoicesModel.id' cs in
           if length ids \<noteq> card (set ids) then Inl [ValueError ''Duplicate choices ids'']
           else Inr v))"

definition SurveyQuestionModel ::
  "IvField_window \<Rightarrow> 'x SurveyQuestionModel_in_scheme \<Rightarrow> SurveyQuestionModel validated" where
  "SurveyQuestionModel w p =
     field (field (field (field (field (field (field
       (Inr (\<lambda>n r d q c rq t.
          \<lparr>SurveyQuestionModel.id' = n, SurveyQuestionModel.regex = r,
           SurveyQuestionModel.description = d, SurveyQuestionModel.question = q,
           SurveyQuestionModel.choices = c, SurveyQuestionModel.required = rq,
           SurveyQuestionModel.type = t\<rparr>))
       (required_field (SurveyQuestionModel_in.id' p) (ge_lt 0 1024)))
       (optional_field (SurveyQuestionModel_in.regex p) (SurveyRegexModel w)))
       (optional_field (SurveyQuestionModel_in.description p) (SurveyDescriptionModel w)))
       (required_field (SurveyQuestionModel_in.question p) (SurveyQuestionsModel w)))
       (validator choices_validator
          (optional_field (SurveyQuestionModel_in.choices p) (max_items 56 (SurveyChoicesModel w)))))
       (default_field False (SurveyQuestionModel_in.required p) any))
       (required_field (SurveyQuestionModel_in.type p) SurveyQuestionType)"

definition SurveyQuestionModel_dict :: "SurveyQuestionModel \<Rightarrow> SurveyQuestionModel_in" where
  "SurveyQuestionModel_dict q =
     \<lparr>SurveyQuestionModel_in.id' = Some (SurveyQuestionModel.id' q),
      SurveyQuestionModel_in.regex = map_option Envelope_dict (SurveyQuestionModel.regex q),
      SurveyQuestionModel_in.description =
        map_option Envelope_dict (SurveyQuestionModel.description q),
      SurveyQuestionModel_in.question = Some (Envelope_dict (SurveyQuestionModel.question q)),
      SurveyQuestionModel_in.choices =
        map_option (map SurveyChoicesModel_dict) (SurveyQuestionModel.choices q),
      SurveyQuestionModel_in.required = Some (SurveyQuestionModel.required q),
      SurveyQuestionModel_in.type = Some (SurveyQuestionType_value (SurveyQuestionModel.type q))\<rparr>"

subsection \<open>Surveys\<close>

record SurveySharedModel_in =
  title :: "Envelope_in option"
  description :: "Envelope_in option"
  questions :: "SurveyQuestionModel_in list option"
  signature :: "string option"
  requires_login :: "bool option"
  proxy_block :: "bool option"
  allow_multiple_submissions :: "bool option"
  algorithms :: "string option"

record SurveySharedModel =
  title :: Envelope
  description :: "Envelope option"
  questions :: "SurveyQuestionModel list"
  signature :: string
  requires_login :: bool
  proxy_block :: bool
  allow_multiple_submissions :: bool
  algorithms :: string

definition questions_validator :: "SurveyQuestionModel list \<Rightarrow> SurveyQuestionModel list validated"
  where
  "questions_validator v =
     (let ids = map SurveyQuestionModel.id' v in
      if length ids \<noteq> card (set ids) then Inl [ValueError ''Duplicate question ids'']
      else Inr v)"

definition SurveySharedModel ::
  "IvField_window \<Rightarrow> 'x SurveySharedModel_in_scheme \<Rightarrow> SurveySharedModel validated" where
  "SurveySharedModel w p =
     field (field (field (field (field (field (field (field
       (Inr (\<lambda>t d q s rl pb am al.
          \<lparr>SurveySharedModel.title = t, SurveySharedModel.description = d,
           SurveySharedModel.questions = q, SurveySharedModel.signature = s,
           SurveySharedModel.requires_login = rl, SurveySharedModel.proxy_block = pb,
           SurveySharedModel.allow_multiple_submissions = am,
           SurveySharedModel.algorithms = al\<rparr>))
       (required_field (SurveySharedModel_in.title p) (TitleModel w)))
       (optional_field (SurveySharedModel_in.description p) (SurveyDescriptionModel w)))
       (validator questions_validator
          (required_field (SurveySharedModel_in.questions p) (max_items 128 (SurveyQuestionModel w)))))
       (required_field (SurveySharedModel_in.signature p) (max_length 128)))
       (default_field False (SurveySharedModel_in.requires_login p) any))
       (default_field False (SurveySharedModel_in.proxy_block p) any))
       (default_field False (SurveySharedModel_in.allow_multiple_submissions p) any))
       (default_field ''XChaCha20Poly1305+ED25519+X25519_XSalsa20Poly1305+BLAKE2b''
          (SurveySharedModel_in.algorithms p) any)"

record SurveyCreateModel_in = SurveySharedModel_in +
  sign_keypair :: "SurveySignKeyPairModel_in option"
  secret_key :: "Envelope_in option"
  keypair :: "SurveyKeypairModel_in option"

record SurveyCreateModel = SurveySharedModel +
  sign_keypair :: SurveySignKeyPairModel
  secret_key :: Envelope
  keypair :: SurveyKeypairModel

definition SurveyCreateModel ::
  "IvField_window \<Rightarrow> 'x SurveyCreateModel_in_scheme \<Rightarrow> SurveyCreateModel validated" where
  "SurveyCreateModel w p =
     field (field (field (field
       (Inr (\<lambda>sh sk sec kp. SurveySharedModel.extend sh (SurveyCreateModel.fields sk sec kp)))
       (SurveySharedModel w p))
       (required_field (SurveyCreateModel_in.sign_keypair p) (SurveySignKeyPairModel w)))
       (required_field (SurveyCreateModel_in.secret_key p) (SurveySecretKeyModel w)))
       (required_field (SurveyCreateModel_in.keypair p) (SurveyKeypairModel w))"

text \<open>
  \<^verbatim>\<open>SurveyModel(SurveyPublicModel, SurveyCreateModel)\<close> declares the key material with
  its private halves again, so it is the create model plus \<^verbatim>\<open>created\<close>, \<^verbatim>\<open>_id\<close> and
  \<^verbatim>\<open>user_id\<close>.
\<close>

record SurveyModel_in = SurveyCreateModel_in +
  created :: "datetime option"
  id' :: "ObjectId option"
  user_id :: "ObjectId option"

record SurveyModel = SurveyCreateModel +
  created :: datetime
  id' :: ObjectId
  user_id :: ObjectId

definition SurveyModel ::
  "IvField_window \<Rightarrow> 'x SurveyModel_in_scheme \<Rightarrow> SurveyModel validated" where
  "SurveyModel w p =
     field (field (field (field
       (Inr (\<lambda>c t i u. SurveyCreateModel.extend c (SurveyModel.fields t i u)))
       (SurveyCreateModel w p))
       (required_field (SurveyModel_in.created p) any))
       (required_field (SurveyModel_in.id' p) any))
       (required_field (SurveyModel_in.user_id p) any)"

text \<open>The public model: the shared fields, the identity fields, and the public halves.\<close>

record SurveyPublicModel = SurveySharedModel +
  created :: datetime
  id' :: ObjectId
  user_id :: ObjectId
  sign_keypair :: SurveySignPublicKeyModel
  keypair :: SurveyPublicKeyModel

text \<open>
  \<^verbatim>\<open>.dict()\<close> of a validated create model: every declared key present, nested models
  as dicts.
\<close>

definition SurveyCreateModel_dict :: "'x SurveyCreateModel_scheme \<Rightarrow> SurveyCreateModel_in" where
  "SurveyCreateModel_dict m =
     \<lparr>SurveySharedModel_in.title = Some (Envelope_dict (SurveySharedModel.title m)),
      SurveySharedModel_in.description = map_option Envelope_dict (SurveySharedModel.description m),
      SurveySharedModel_in.questions = Some (map SurveyQuestionModel_dict (SurveySharedModel.questions m)),
      SurveySharedModel_in.signature = Some (SurveySharedModel.signature m),
      SurveySharedModel_in.requires_login = Some (SurveySharedModel.requires_login m),
      SurveySharedModel_in.proxy_block = Some (SurveySharedModel.proxy_block m),
      SurveySharedModel_in.allow_multiple_submissions =
        Some (SurveySharedModel.allow_multiple_submissions m),
      SurveySharedModel_in.algorithms = Some (SurveySharedModel.algorithms m),
      SurveyCreateModel_in.sign_keypair =
        Some (SurveySignKeyPairModel_dict (SurveyCreateModel.sign_keypair m)),
      SurveyCreateModel_in.secret_key = Some (Envelope_dict (SurveyCreateModel.secret_key m)),
      SurveyCreateModel_in.keypair = Some (SurveyKeypairModel_dict (SurveyCreateModel.keypair m))\<rparr>"

text \<open>
  The full survey serialised unchanged as a document: the keys of the create model and
  the three identity keys.
\<close>

definition SurveyModel_dict :: "SurveyModel \<Rightarrow> SurveyModel_in" where
  "SurveyModel_dict m =
     \<lparr>SurveySharedModel_in.title = Some (Envelope_dict (SurveySharedModel.title m)),
      SurveySharedModel_in.description = map_option Envelope_dict (SurveySharedModel.description m),
      SurveySharedModel_in.questions = Some (map SurveyQuestionModel_dict (SurveySharedModel.questions m)),
      SurveySharedModel_in.signature = Some (SurveySharedModel.signature m),
      SurveySharedModel_in.requires_login = Some (SurveySharedModel.requires_login m),
      SurveySharedModel_in.proxy_block = Some (SurveySharedModel.proxy_block m),
      SurveySharedModel_in.allow_multiple_submissions =
        Some (SurveySharedModel.allow_multiple_submissions m),
      SurveySharedModel_in.algorithms = Some (SurveySharedModel.algorithms m),
      SurveyCreateModel_in.sign_keypair =
        Some (SurveySignKeyPairModel_dict (SurveyCreateModel.sign_keypair m)),
      SurveyCreateModel_in.secret_key = Some (Envelope_dict (SurveyCreateModel.secret_key m)),
      SurveyCreateModel_in.keypair = Some (SurveyKeypairModel_dict (SurveyCreateModel.keypair m)),
      SurveyModel_in.created = Some (SurveyModel.created m),
      SurveyModel_in.id' = Some (SurveyModel.id' m),
      SurveyModel_in.user_id = Some (SurveyModel.user_id m)\<rparr>"


section \<open>Account schema\<close>

text \<open>
  \<^verbatim>\<open>AccountAuthModal\<close> has the one field of \<^verbatim>\<open>SurveySignPublicKeyModel\<close>, and
  \<^verbatim>\<open>AccountEd25199Modal\<close> and \<^verbatim>\<open>AccountX25519Model\<close> the three fields of
  \<^verbatim>\<open>SurveySignKeyPairModel\<close>, with the same bounds; they share the records.
\<close>

definition AccountAuthModal ::
  "'x SurveySignPublicKeyModel_in_scheme \<Rightarrow> SurveySignPublicKeyModel validated" where
  "AccountAuthModal p =
     field (Inr (\<lambda>k. \<lparr>SurveySignPublicKeyModel.public_key = k\<rparr>))
       (required_field (SurveySignPublicKeyModel_in.public_key p) (max_length 44))"

definition AccountEd25199Modal ::
  "IvField_window \<Rightarrow> 'x SurveySignKeyPairModel_in_scheme \<Rightarrow> SurveySignKeyPairModel validated"
  where
  "AccountEd25199Modal w p =
     field (field (field
       (Inr (\<lambda>i k c. \<lparr>SurveySignPublicKeyModel.public_key = k,
                       SurveySignKeyPairModel.iv = i, SurveySignKeyPairModel.cipher_text = c\<rparr>))
       (required_field (SurveySignKeyPairModel_in.iv p) (IvField_iv w)))
       (required_field (SurveySignPublicKeyModel_in.public_key p) (max_length 44)))
       (required_field (SurveySignKeyPairModel_in.cipher_text p) (max_length 240))"

definition AccountX25519Model ::
  "IvField_window \<Rightarrow> 'x SurveySignKeyPairModel_in_scheme \<Rightarrow> SurveySignKeyPairModel validated"
  where
  "AccountX25519Model w p =
     field (field (field
       (Inr (\<lambda>i k c. \<lparr>SurveySignPublicKeyModel.public_key = k,
                       SurveySignKeyPairModel.iv = i, SurveySignKeyPairModel.cipher_text = c\<rparr>))
       (required_field (SurveySignKeyPairModel_in.iv p) (IvField_iv w)))
       (required_field (SurveySignPublicKeyModel_in.public_key p) (max_length 44)))
       (required_field (SurveySignKeyPairModel_in.cipher_text p) (max_length 240))"

text \<open>
  What the account schema takes from outside the repository: the argon2 profile, the
  email validation behind \<^verbatim>\<open>EmailStr\<close> (\<open>None\<close> for an invalid address, otherwise the
  normalised address), and the provisioning URI that pyotp builds from a secret and the
  configured site name. The envelope window is the one of \<^verbatim>\<open>IvField\<close>.
\<close>

record Schema_env =
  iv_window :: IvField_window
  argon2_profile :: Parameters
  validate_email :: "string \<Rightarrow> string option"
  totp_provisioning_uri :: "string \<Rightarrow> string"

definition EmailStr :: "Schema_env \<Rightarrow> string \<Rightarrow> string validated" where
  "EmailStr env v = (case validate_email env v of None \<Rightarrow> Inl [NotEmail] | Some e \<Rightarrow> Inr e)"

record OtpModel_in =
  secret :: "string option"
  completed :: "bool option"
  provisioning_uri :: "string option"

record OtpModel =
  secret :: string
  completed :: bool
  provisioning_uri :: string

text \<open>
  \<^verbatim>\<open>OtpModel.__init__\<close> validates the fields and then overwrites
  \<^verbatim>\<open>provisioning_uri\<close> with the URI computed from the secret.
\<close>

definition OtpModel :: "Schema_env \<Rightarrow> 'x OtpModel_in_scheme \<Rightarrow> OtpModel validated" where
  "OtpModel env p =
     (case
        field (field (field
          (Inr (\<lambda>s c u. \<lparr>OtpModel.secret = s, OtpModel.completed = c,
                          OtpModel.provisioning_uri = u\<rparr>))
          (required_field (OtpModel_in.secret p) any))
          (default_field False (OtpModel_in.completed p) any))
          (default_field '''' (OtpModel_in.provisioning_uri p) any)
      of
        Inl es \<Rightarrow> Inl es
      | Inr self \<Rightarrow>
          Inr (self\<lparr>OtpModel.provisioning_uri := totp_provisioning_uri env (OtpModel.secret self)\<rparr>))"

record CreateUserShared_in =
  email :: "string option"
  auth :: "SurveySignPublicKeyModel_in option"
  keypair :: "SurveySignKeyPairModel_in option"
  sign_keypair :: "SurveySignKeyPairModel_in option"
  keychain :: "Envelope_in option"
  kdf :: "Argon2Modal_in option"
  ip_lookup_consent :: "bool option"
  signature :: "string option"
  algorithms :: "string option"

record CreateUserShared =
  email :: string
  auth :: SurveySignPublicKeyModel
  keypair :: SurveySignKeyPairModel
  sign_keypair :: SurveySignKeyPairModel
  keychain :: Envelope
  kdf :: Argon2Modal
  ip_lookup_consent :: bool
  signature :: string
  algorithms :: string

definition CreateUserShared ::
  "Schema_env \<Rightarrow> 'x CreateUserShared_in_scheme \<Rightarrow> CreateUserShared validated" where
  "CreateUserShared env p =
     field (field (field (field (field (field (field (field (field
       (Inr (\<lambda>e a k sk kc kd c s al.
          \<lparr>CreateUserShared.email = e, CreateUserShared.auth = a,
           CreateUserShared.keypair = k, CreateUserShared.sign_keypair = sk,
           CreateUserShared.keychain = kc, CreateUserShared.kdf = kd,
           CreateUserShared.ip_lookup_consent = c, CreateUserShared.signature = s,
           CreateUserShared.algorithms = al\<rparr>))
       (required_field (CreateUserShared_in.email p) (EmailStr env)))
       (required_field (CreateUserShared_in.auth p) AccountAuthModal))
       (required_field (CreateUserShared_in.keypair p) (AccountX25519Model (iv_window env))))
       (required_field (CreateUserShared_in.sign_keypair p) (AccountEd25199Modal (iv_window env))))
       (required_field (CreateUserShared_in.keychain p) (AccountKeychainModal (iv_window env))))
       (required_field (CreateUserShared_in.kdf p) (Argon2Modal (argon2_profile env))))
       (default_field True (CreateUserShared_in.ip_lookup_consent p) any))
       (required_field (CreateUserShared_in.signature p) (max_length 128)))
       (default_field
          ''XCHACHA20_POLY1305+ED25519+ARGON2+X25519_XSalsa20Poly1305+BLAKE2b+IV24+SALT16+KEY32''
          (CreateUserShared_in.algorithms p) (max_length 120))"

text \<open>
  \<^verbatim>\<open>UserModel(__CreateUserShared, EmailModel, CustomJsonEncoder)\<close>: the shared fields,
  then \<^verbatim>\<open>_id\<close>, \<^verbatim>\<open>created\<close>, \<^verbatim>\<open>otp\<close> and \<^verbatim>\<open>email_verified\<close>.
  \<^verbatim>\<open>CustomJsonEncoder\<close> (not among the sources) is taken to declare no field.
\<close>

record UserModel_in = CreateUserShared_in +
  id' :: "ObjectId option"
  created :: "datetime option"
  otp :: "OtpModel_in option"
  email_verified :: "bool option"

record UserModel = CreateUserShared +
  id' :: ObjectId
  created :: datetime
  otp :: OtpModel
  email_verified :: bool

definition UserModel :: "Schema_env \<Rightarrow> 'x UserModel_in_scheme \<Rightarrow> UserModel validated" where
  "UserModel env p =
     field (field (field (field (field
       (Inr (\<lambda>sh i c ot v. CreateUserShared.extend sh (UserModel.fields i c ot v)))
       (CreateUserShared env p))
       (required_field (UserModel_in.id' p) any))
       (required_field (UserModel_in.created p) any))
       (required_field (UserModel_in.otp p) (OtpModel env)))
       (default_field False (UserModel_in.email_verified p) any)"


section \<open>Store, errors and collaborators\<close>

datatype error =
    SurveyNotFoundException
  | UserNotFoundException
  | InvalidAccountAuth
  | CaptchaRequiredError
  | CaptchaInvalidError
  | DuplicateSubmissionError
  | KeyError string
  | ValidationError "verr list"

record SurveyAnswerModel =
  id' :: int
  answer :: "string list"
  type :: SurveyQuestionType

text \<open>
  Modelled from the spec: \<^verbatim>\<open>SubmitSurveyModel\<close>, which the handlers import and the
  sources do not declare. An answer set is an ordered list of answers.
\<close>

type_synonym SubmitSurveyModel = "SurveyAnswerModel list"

text \<open>
  Modelled from the spec: the object that \<^verbatim>\<open>Survey.get\<close> returns
  (\<^verbatim>\<open>Survey.get\<close>, \<^verbatim>\<open>Survey.public\<close> and \<^verbatim>\<open>Survey.submit_answers\<close> live in
  \<^verbatim>\<open>app.lib.survey\<close>, not among the sources). It is the stored survey in its full
  policy view. The handler reads four flags from it. Three of them are fields of
  \<^verbatim>\<open>__SurveySharedModel\<close>; \<^verbatim>\<open>requires_captcha\<close> is declared by no model of the
  sources and is carried next to the fields of \<^verbatim>\<open>SurveyModel\<close>.
\<close>

record Survey = SurveyModel +
  requires_captcha :: bool

record AnswerSet =
  of_survey :: ObjectId
  submitter :: "ObjectId option"
  answers :: SubmitSurveyModel

text \<open>The collections of the document store that the handlers touch.\<close>

record State =
  survey :: "Survey list"
  survey_answer :: "AnswerSet list"
  user :: "UserModel_in list"

text \<open>
  The collaborators outside the repository: \<^verbatim>\<open>bson.ObjectId(str)\<close> (\<open>None\<close> where it
  raises \<^verbatim>\<open>InvalidId\<close>), the captcha verifier, and the network-origin lookup behind
  \<^verbatim>\<open>GeoIp(state, host).get()\<close> (\<open>None\<close> or a dict, as an association list).
\<close>

record Env =
  ObjectId_of :: "string \<Rightarrow> ObjectId option"
  captcha_verify :: "string \<Rightarrow> bool"
  GeoIp_get :: "string \<Rightarrow> (string \<times> string) list option"

text \<open>
  Modelled from the spec: \<^verbatim>\<open>Survey.get\<close> returns the stored survey with the given id
  and raises \<^verbatim>\<open>SurveyNotFoundException\<close> when there is none.
\<close>

definition Survey_get :: "State \<Rightarrow> ObjectId \<Rightarrow> error + Survey" where
  "Survey_get s oid =
     (case find (\<lambda>d. SurveyModel.id' d = oid) (survey s) of
        None \<Rightarrow> Inl SurveyNotFoundException
      | Some d \<Rightarrow> Inr d)"

text \<open>
  Modelled from the spec: the public projection keeps the shared and identity fields and
  the public halves of the two key pairs, and drops every private half and the secret key.
\<close>

definition projectPublic :: "'x SurveyModel_scheme \<Rightarrow> SurveyPublicModel" where
  "projectPublic m =
     \<lparr>SurveySharedModel.title = SurveySharedModel.title m,
      SurveySharedModel.description = SurveySharedModel.description m,
      SurveySharedModel.questions = SurveySharedModel.questions m,
      SurveySharedModel.signature = SurveySharedModel.signature m,
      SurveySharedModel.requires_login = SurveySharedModel.requires_login m,
      SurveySharedModel.proxy_block = SurveySharedModel.proxy_block m,
      SurveySharedModel.allow_multiple_submissions = SurveySharedModel.allow_multiple_submissions m,
      SurveySharedModel.algorithms = SurveySharedModel.algorithms m,
      SurveyPublicModel.created = SurveyModel.created m,
      SurveyPublicModel.id' = SurveyModel.id' m,
      SurveyPublicModel.user_id = SurveyModel.user_id m,
      SurveyPublicModel.sign_keypair =
        \<lparr>SurveySignPublicKeyModel.public_key =
           SurveySignPublicKeyModel.public_key (SurveyCreateModel.sign_keypair m)\<rparr>,
      SurveyPublicModel.keypair =
        \<lparr>SurveyPublicKeyModel.public_key =
           SurveyPublicKeyModel.public_key (SurveyCreateModel.keypair m)\<rparr>\<rparr>"

definition Survey_public :: "State \<Rightarrow> ObjectId \<Rightarrow> error + SurveyPublicModel" where
  "Survey_public s oid =
     (case find (\<lambda>d. SurveyModel.id' d = oid) (survey s) of
        None \<Rightarrow> Inl SurveyNotFoundException
      | Some d \<Rightarrow> Inr (projectPublic d))"

text \<open>
  Modelled from the spec: \<^verbatim>\<open>Survey.submit_answers\<close>, the persist step. It writes
  the answer set keyed by the survey id and the submitter id, if any. For a survey stored
  with \<^verbatim>\<open>allow_multiple_submissions = false\<close> the store enforces, at write time, a
  uniqueness constraint on the pair of survey id and submitter id when the submitter is
  present: a second write for the pair fails with \<^verbatim>\<open>DuplicateSubmissionError\<close>.
  Anonymous submissions are never deduplicated.
\<close>

definition unique_submissions :: "State \<Rightarrow> ObjectId \<Rightarrow> bool" where
  "unique_submissions s oid =
     (case find (\<lambda>d. SurveyModel.id' d = oid) (survey s) of
        None \<Rightarrow> False
      | Some d \<Rightarrow> \<not> SurveySharedModel.allow_multiple_submissions d)"

definition recorded :: "State \<Rightarrow> ObjectId \<Rightarrow> ObjectId \<Rightarrow> bool" where
  "recorded s oid u = (\<exists>a \<in> set (survey_answer s). of_survey a = oid \<and> submitter a = Some u)"

definition submit_answers ::
  "State \<Rightarrow> ObjectId \<Rightarrow> SubmitSurveyModel \<Rightarrow> ObjectId option \<Rightarrow> error + State" where
  "submit_answers s oid data uid =
     (case uid of
        None \<Rightarrow>
          Inr (s\<lparr>survey_answer := survey_answer s @
                 [\<lparr>of_survey = oid, submitter = None, answers = data\<rparr>]\<rparr>)
      | Some u \<Rightarrow>
          if unique_submissions s oid \<and> recorded s oid u then Inl DuplicateSubmissionError
          else
            Inr (s\<lparr>survey_answer := survey_answer s @
                   [\<lparr>of_survey = oid, submitter = Some u, answers = data\<rparr>]\<rparr>))"

text \<open>
  Modelled from the spec: \<^verbatim>\<open>validate_captcha\<close> (\<^verbatim>\<open>app.lib.mCaptcha\<close>, not among
  the sources). A missing token fails with \<^verbatim>\<open>CaptchaRequiredError\<close>, a token that the
  verifier rejects with \<^verbatim>\<open>CaptchaInvalidError\<close>. The handler awaits the call and drops
  its result, so it can only stop a submission by raising.
\<close>

definition validate_captcha :: "Env \<Rightarrow> string option \<Rightarrow> error + unit" where
  "validate_captcha env captcha =
     (case captcha of
        None \<Rightarrow> Inl CaptchaRequiredError
      | Some token \<Rightarrow> if captcha_verify env token then Inr () else Inl CaptchaInvalidError)"


section \<open>Survey handlers\<close>

text \<open>
  The request as the handlers read it: \<^verbatim>\<open>request.user\<close> (an \<^verbatim>\<open>ObjectId\<close>, always
  truthy, or \<^verbatim>\<open>None\<close>) and \<^verbatim>\<open>request.client\<close> (an address or \<^verbatim>\<open>None\<close>).
\<close>

record Address =
  host :: string
  port :: nat

record Request =
  user :: "ObjectId option"
  client :: "Address option"

text \<open>
  Lines 68 to 82 of \<^verbatim>\<open>submit_survey\<close>: everything after the captcha check. The bodies
  of the duplicate-submission branch and of the proxy branch are \<^verbatim>\<open>pass\<close>; the last
  line awaits \<^verbatim>\<open>submit_answers\<close>, whose error, if any, is the handler's.
  \<^verbatim>\<open>geoip_lookup["proxy"]\<close> raises \<^verbatim>\<open>KeyError\<close> on a non-empty dict without that key.
\<close>

definition submit_survey_after_captcha ::
  "Env \<Rightarrow> State \<Rightarrow> Request \<Rightarrow> ObjectId \<Rightarrow> Survey \<Rightarrow> SubmitSurveyModel \<Rightarrow> error + State" where
  "submit_survey_after_captcha env s request oid survey' data =
     (case (case Request.user request of
              Some u \<Rightarrow> Inr (Some u)
            | None \<Rightarrow>
                if SurveySharedModel.requires_login survey' then Inl InvalidAccountAuth
                else Inr None) of
        Inl e \<Rightarrow> Inl e
      | Inr uid \<Rightarrow>
          (case (if \<not> SurveySharedModel.allow_multiple_submissions survey' then Inr () else Inr ()) of
             Inl e \<Rightarrow> Inl e
           | Inr _ \<Rightarrow>
               (case (case Request.client request of
                        None \<Rightarrow> Inr ()
                      | Some c \<Rightarrow>
                          if SurveySharedModel.proxy_block survey' \<and> Address.host c \<noteq> [] then
                            (case GeoIp_get env (Address.host c) of
                               None \<Rightarrow> Inr ()
                             | Some geoip_lookup \<Rightarrow>
                                 if geoip_lookup = [] then Inr ()
                                 else
                                   (case map_of geoip_lookup ''proxy'' of
                                      None \<Rightarrow> Inl (KeyError ''proxy'')
                                    | Some v \<Rightarrow> if v = ''yes'' then Inr () else Inr ()))
                          else Inr ()) of
                  Inl e \<Rightarrow> Inl e
                | Inr _ \<Rightarrow> submit_answers s oid data uid)))"

text \<open>
  \<^verbatim>\<open>submit_survey\<close>: the result is the error raised, or the store after the handler
  returned \<^verbatim>\<open>None\<close>.
\<close>

definition submit_survey ::
  "Env \<Rightarrow> State \<Rightarrow> Request \<Rightarrow> string \<Rightarrow> SubmitSurveyModel \<Rightarrow> string option \<Rightarrow> error + State"
  where
  "submit_survey env s request survey_id data captcha =
     (case ObjectId_of env survey_id of
        None \<Rightarrow> Inl SurveyNotFoundException
      | Some oid \<Rightarrow>
          (case Survey_get s oid of
             Inl e \<Rightarrow> Inl e
           | Inr survey' \<Rightarrow>
               (case (if Survey.requires_captcha survey' then validate_captcha env captcha
                      else Inr ()) of
                  Inl e \<Rightarrow> Inl e
                | Inr _ \<Rightarrow> submit_survey_after_captcha env s request oid survey' data)))"

definition public_survey ::
  "Env \<Rightarrow> State \<Rightarrow> Request \<Rightarrow> string \<Rightarrow> error + SurveyPublicModel" where
  "public_survey env s request survey_id =
     (case ObjectId_of env survey_id of
        None \<Rightarrow> Inl SurveyNotFoundException
      | Some oid \<Rightarrow>
          (case Survey_public s oid of
             Inl e \<Rightarrow> Inl e
           | Inr survey' \<Rightarrow>
               if SurveySharedModel.requires_login survey' \<and> Request.user request = None
               then Inl InvalidAccountAuth
               else Inr survey'))"


section \<open>Users\<close>

text \<open>
  The two queries of \<^verbatim>\<open>User\<close> on the user collection, with the filter
  \<^verbatim>\<open>{"email": self.email}\<close>. A document that \<^verbatim>\<open>find_one\<close> returns holds the email key,
  so it is truthy.
\<close>

definition email_query :: "string \<Rightarrow> 'x UserModel_in_scheme \<Rightarrow> bool" where
  "email_query e d \<longleftrightarrow> CreateUserShared_in.email d = Some e"

definition count_documents :: "State \<Rightarrow> string \<Rightarrow> nat" where
  "count_documents s e = length (filter (email_query e) (State.user s))"

definition find_one :: "State \<Rightarrow> string \<Rightarrow> UserModel_in option" where
  "find_one s e = find (email_query e) (State.user s)"

definition User_exists :: "State \<Rightarrow> string \<Rightarrow> error + unit" where
  "User_exists s e = (if count_documents s e = 0 then Inl UserNotFoundException else Inr ())"

definition User_get :: "Schema_env \<Rightarrow> State \<Rightarrow> string \<Rightarrow> error + UserModel" where
  "User_get env s e =
     (case find_one s e of
        None \<Rightarrow> Inl UserNotFoundException
      | Some user' \<Rightarrow>
          (case UserModel env user' of
             Inl es \<Rightarrow> Inl (ValidationError es)
           | Inr m \<Rightarrow> Inr m))"


section \<open>The example of the spec\<close>

text \<open>
  Survey \<open>S\<close> with one single-choice question (id 0, choices 0 and 1) and every policy
  flag off, in particular \<^verbatim>\<open>allow_multiple_submissions = false\<close>; the answer
  \<^verbatim>\<open>{id: 0, answer: ["0"], type: SingleChoice}\<close>; the identity \<open>U1\<close>.
\<close>

definition iv_S :: string where
  "iv_S = ''AAAAAAAAAAAAAAAAAAAAAAAAAAAAAAAA''"

definition envelope_S :: Envelope where
  "envelope_S = \<lparr>Envelope.iv = iv_S, Envelope.cipher_text = ''Y2lwaGVy''\<rparr>"

definition question_S :: SurveyQuestionModel where
  "question_S =
     \<lparr>SurveyQuestionModel.id' = 0, SurveyQuestionModel.regex = None,
      SurveyQuestionModel.description = None, SurveyQuestionModel.question = envelope_S,
      SurveyQuestionModel.choices =
        Some [\<lparr>SurveyChoicesModel.iv = iv_S, SurveyChoicesModel.id' = 0,
                SurveyChoicesModel.cipher_text = ''YQ==''\<rparr>,
              \<lparr>SurveyChoicesModel.iv = iv_S, SurveyChoicesModel.id' = 1,
                SurveyChoicesModel.cipher_text = ''Yg==''\<rparr>],
      SurveyQuestionModel.required = False, SurveyQuestionModel.type = SingleChoice\<rparr>"

definition survey_S :: Survey where
  "survey_S =
     \<lparr>SurveySharedModel.title = envelope_S,
      SurveySharedModel.description = None,
      SurveySharedModel.questions = [question_S],
      SurveySharedModel.signature = ''c2ln'',
      SurveySharedModel.requires_login = False,
      SurveySharedModel.proxy_block = False,
      SurveySharedModel.allow_multiple_submissions = False,
      SurveySharedModel.algorithms = ''XChaCha20Poly1305+ED25519+X25519_XSalsa20Poly1305+BLAKE2b'',
      SurveyCreateModel.sign_keypair =
        \<lparr>SurveySignPublicKeyModel.public_key = ''cHVi'', SurveySignKeyPairModel.iv = iv_S,
         SurveySignKeyPairModel.cipher_text = ''cHJpdg==''\<rparr>,
      SurveyCreateModel.secret_key = envelope_S,
      SurveyCreateModel.keypair =
        \<lparr>SurveyPublicKeyModel.public_key = envelope_S,
         SurveyKeypairModel.private_key = envelope_S\<rparr>,
      SurveyModel.created = 0,
      SurveyModel.id' = 1,
      SurveyModel.user_id = 7,
      Survey.requires_captcha = False\<rparr>"

definition window_S :: IvField_window where
  "window_S = \<lparr>iv_min_length = 32, iv_max_length = 32\<rparr>"

definition payload_S :: SurveyCreateModel_in where
  "payload_S = SurveyCreateModel_dict survey_S"

text \<open>The payload of \<open>S\<close> with its question listed twice.\<close>

definition payload_dup :: SurveyCreateModel_in where
  "payload_dup =
     payload_S\<lparr>SurveySharedModel_in.questions :=
       Some [SurveyQuestionModel_dict question_S, SurveyQuestionModel_dict question_S]\<rparr>"

text \<open>The stored document of \<open>S\<close>.\<close>

definition doc_S :: SurveyModel_in where
  "doc_S = SurveyModel_dict (SurveyModel.truncate survey_S)"

text \<open>
  An account document and the collaborators of the account schema: one address counts
  as valid and is returned unchanged, and the provisioning URI is built from the secret.
\<close>

definition schema_S :: Schema_env where
  "schema_S =
     \<lparr>iv_window = window_S,
      argon2_profile = RFC_9106_LOW_MEMORY,
      validate_email = (\<lambda>v. if v = ''u1@example.org'' then Some v else None),
      totp_provisioning_uri = (\<lambda>s. ''otpauth://totp/site?secret='' @ s)\<rparr>"

definition user_doc_S :: UserModel_in where
  "user_doc_S =
     \<lparr>CreateUserShared_in.email = Some ''u1@example.org'',
      CreateUserShared_in.auth = Some \<lparr>SurveySignPublicKeyModel_in.public_key = Some ''YXV0aA==''\<rparr>,
      CreateUserShared_in.keypair =
        Some \<lparr>SurveySignPublicKeyModel_in.public_key = Some ''cHVi'',
              SurveySignKeyPairModel_in.iv = Some iv_S,
              SurveySignKeyPairModel_in.cipher_text = Some ''cHJpdg==''\<rparr>,
      CreateUserShared_in.sign_keypair =
        Some \<lparr>SurveySignPublicKeyModel_in.public_key = Some ''cHVi'',
              SurveySignKeyPairModel_in.iv = Some iv_S,
              SurveySignKeyPairModel_in.cipher_text = Some ''cHJpdg==''\<rparr>,
      CreateUserShared_in.keychain =
        Some \<lparr>Envelope_in.iv = Some iv_S, Envelope_in.cipher_text = Some ''a2V5''\<rparr>,
      CreateUserShared_in.kdf =
        Some \<lparr>Argon2Modal_in.salt = Some ''c2FsdA=='', Argon2Modal_in.time_cost = Some 3,
              Argon2Modal_in.memory_cost = Some 65536\<rparr>,
      CreateUserShared_in.ip_lookup_consent = None,
      CreateUserShared_in.signature = Some ''c2ln'',
      CreateUserShared_in.algorithms = None,
      UserModel_in.id' = Some 42,
      UserModel_in.created = Some 0,
      UserModel_in.otp =
        Some \<lparr>OtpModel_in.secret = Some ''JBSWY3DPEHPK3PXP'', OtpModel_in.completed = None,
              OtpModel_in.provisioning_uri = None\<rparr>,
      UserModel_in.email_verified = None\<rparr>"

definition users_S :: State where
  "users_S = \<lparr>State.survey = [], State.survey_answer = [], State.user = [user_doc_S]\<rparr>"

text \<open>
  Two payloads with a shared question id: the question of \<open>S\<close> 129 times, and the
  question of \<open>S\<close> twice followed by a question with id 1024.
\<close>

definition payload_129 :: SurveyCreateModel_in where
  "payload_129 =
     payload_S\<lparr>SurveySharedModel_in.questions :=
       Some (replicate 129 (SurveyQuestionModel_dict question_S))\<rparr>"

definition payload_1024 :: SurveyCreateModel_in where
  "payload_1024 =
     payload_S\<lparr>SurveySharedModel_in.questions :=
       Some [SurveyQuestionModel_dict question_S, SurveyQuestionModel_dict question_S,
             (SurveyQuestionModel_dict question_S)\<lparr>SurveyQuestionModel_in.id' := Some 1024\<rparr>]\<rparr>"

definition answers_S :: SubmitSurveyModel where
  "answers_S =
     [\<lparr>SurveyAnswerModel.id' = 0, SurveyAnswerModel.answer = [''0''],
       SurveyAnswerModel.type = SingleChoice\<rparr>]"

definition U1 :: ObjectId where
  "U1 = 42"

definition state_S :: "Survey \<Rightarrow> State" where
  "state_S sv = \<lparr>State.survey = [sv], State.survey_answer = [], State.user = []\<rparr>"

text \<open>
  Collaborators for the example: the id string of \<open>S\<close> parses to its id, the captcha
  verifier rejects every token, and the origin lookup reports every address as a proxy.
\<close>

definition env_S :: Env where
  "env_S =
     \<lparr>ObjectId_of = (\<lambda>x. if x = ''000000000000000000000001'' then Some 1 else None),
      captcha_verify = (\<lambda>t. False),
      GeoIp_get = (\<lambda>h. Some [(''proxy'', ''yes'')])\<rparr>"

definition request_S :: "ObjectId option \<Rightarrow> Request" where
  "request_S u =
     \<lparr>Request.user = u, Request.client = Some \<lparr>Address.host = ''203.0.113.7'', Address.port = 443\<rparr>\<rparr>"

definition answer_set_S :: "ObjectId option \<Rightarrow> AnswerSet" where
  "answer_set_S u = \<lparr>of_survey = 1, submitter = u, answers = answers_S\<rparr>"


section \<open>Properties\<close>

lemma field_Inr_iff:
  "field f x = Inr y \<longleftrightarrow> (\<exists>g v. f = Inr g \<and> x = Inr v \<and> y = g v)"
  by (auto simp: field_def split: sum.splits)

lemma required_field_Inr_iff:
  "required_field v chk = Inr y \<longleftrightarrow> (\<exists>x. v = Some x \<and> chk x = Inr y)"
  by (auto simp: required_field_def split: option.splits)

lemma default_field_Inr_iff:
  "default_field d v chk = Inr y \<longleftrightarrow> (v = None \<and> y = d) \<or> (\<exists>x. v = Some x \<and> chk x = Inr y)"
  by (auto simp: default_field_def split: option.splits)

lemma optional_field_Inr_iff:
  "optional_field v chk = Inr y \<longleftrightarrow>
     (v = None \<and> y = None) \<or> (\<exists>x z. v = Some x \<and> chk x = Inr z \<and> y = Some z)"
  by (auto simp: optional_field_def split: option.splits sum.splits)

lemma max_length_Inr_iff: "max_length n s = Inr t \<longleftrightarrow> length s \<le> n \<and> t = s"
  by (auto simp: max_length_def)

lemma ge_le_Inr_iff: "ge_le a b v = Inr u \<longleftrightarrow> a \<le> v \<and> v \<le> b \<and> u = v"
  by (auto simp: ge_le_def)

lemma ge_lt_Inr_iff: "ge_lt a b v = Inr u \<longleftrightarrow> a \<le> v \<and> v < b \<and> u = v"
  by (auto simp: ge_lt_def)

lemma IvField_iv_Inr_iff:
  "IvField_iv w s = Inr t \<longleftrightarrow>
     s \<noteq> [] \<and> iv_min_length w \<le> length s \<and> length s \<le> iv_max_length w \<and> t = s"
  by (auto simp: IvField_iv_def)

lemma Argon2Modal_Inr_iff:
  "Argon2Modal prof p = Inr m \<longleftrightarrow>
     (\<exists>s. Argon2Modal_in.salt p = Some s \<and> length s \<le> 64 \<and> Argon2Modal.salt m = s) \<and>
     (case Argon2Modal_in.time_cost p of
        None \<Rightarrow> Argon2Modal.time_cost m = Parameters.time_cost prof
      | Some t \<Rightarrow> Parameters.time_cost prof - 1 \<le> t \<and> t \<le> 12 \<and> Argon2Modal.time_cost m = t) \<and>
     (case Argon2Modal_in.memory_cost p of
        None \<Rightarrow> Argon2Modal.memory_cost m = Parameters.memory_cost prof
      | Some c \<Rightarrow> Parameters.memory_cost prof - 1 \<le> c \<and> c \<le> 3355443200 \<and>
                  Argon2Modal.memory_cost m = c)"
  unfolding Argon2Modal_def field_Inr_iff required_field_Inr_iff default_field_Inr_iff
    max_length_Inr_iff ge_le_Inr_iff
  by (cases m) (auto split: option.splits)

text \<open>
  C8: \<^verbatim>\<open>Argon2Modal\<close> accepts a payload exactly when the salt is present with at most
  64 characters, a supplied \<^verbatim>\<open>time_cost\<close> lies in the closed interval from the profile's
  value minus one to 12, and a supplied \<^verbatim>\<open>memory_cost\<close> lies in the closed interval from
  the profile's value minus one to 3355443200. Any supplied value outside its interval
  is rejected.
\<close>

theorem Argon2Modal_accepts_iff:
  "(\<exists>m. Argon2Modal prof p = Inr m) \<longleftrightarrow>
     (\<exists>s. Argon2Modal_in.salt p = Some s \<and> length s \<le> 64) \<and>
     (\<forall>t. Argon2Modal_in.time_cost p = Some t \<longrightarrow>
        t \<in> {Parameters.time_cost prof - 1 .. 12}) \<and>
     (\<forall>c. Argon2Modal_in.memory_cost p = Some c \<longrightarrow>
        c \<in> {Parameters.memory_cost prof - 1 .. 3355443200})"
proof
  assume "\<exists>m. Argon2Modal prof p = Inr m"
  then show "(\<exists>s. Argon2Modal_in.salt p = Some s \<and> length s \<le> 64) \<and>
     (\<forall>t. Argon2Modal_in.time_cost p = Some t \<longrightarrow>
        t \<in> {Parameters.time_cost prof - 1 .. 12}) \<and>
     (\<forall>c. Argon2Modal_in.memory_cost p = Some c \<longrightarrow>
        c \<in> {Parameters.memory_cost prof - 1 .. 3355443200})"
    unfolding Argon2Modal_Inr_iff by (auto split: option.splits)
next
  assume a: "(\<exists>s. Argon2Modal_in.salt p = Some s \<and> length s \<le> 64) \<and>
     (\<forall>t. Argon2Modal_in.time_cost p = Some t \<longrightarrow>
        t \<in> {Parameters.time_cost prof - 1 .. 12}) \<and>
     (\<forall>c. Argon2Modal_in.memory_cost p = Some c \<longrightarrow>
        c \<in> {Parameters.memory_cost prof - 1 .. 3355443200})"
  then obtain s where s: "Argon2Modal_in.salt p = Some s" "length s \<le> 64" by blast
  let ?t = "case Argon2Modal_in.time_cost p of None \<Rightarrow> Parameters.time_cost prof | Some t \<Rightarrow> t"
  let ?c = "case Argon2Modal_in.memory_cost p of None \<Rightarrow> Parameters.memory_cost prof | Some c \<Rightarrow> c"
  have "Argon2Modal prof p =
      Inr \<lparr>Argon2Modal.salt = s, Argon2Modal.time_cost = ?t, Argon2Modal.memory_cost = ?c\<rparr>"
    unfolding Argon2Modal_Inr_iff using a s by (auto split: option.splits)
  then show "\<exists>m. Argon2Modal prof p = Inr m" by blast
qed

theorem Argon2Modal_accepts_iff_witness:
  "(\<exists>m. Argon2Modal RFC_9106_LOW_MEMORY
      \<lparr>Argon2Modal_in.salt = Some ''c2FsdA=='', Argon2Modal_in.time_cost = Some 2,
       Argon2Modal_in.memory_cost = Some 3355443200\<rparr> = Inr m) \<and>
   \<not> (\<exists>m. Argon2Modal RFC_9106_LOW_MEMORY
      \<lparr>Argon2Modal_in.salt = Some ''c2FsdA=='', Argon2Modal_in.time_cost = Some 13,
       Argon2Modal_in.memory_cost = None\<rparr> = Inr m) \<and>
   \<not> (\<exists>m. Argon2Modal RFC_9106_LOW_MEMORY
      \<lparr>Argon2Modal_in.salt = Some ''c2FsdA=='', Argon2Modal_in.time_cost = None,
       Argon2Modal_in.memory_cost = Some 65534\<rparr> = Inr m)"
  unfolding Argon2Modal_accepts_iff by (simp add: RFC_9106_LOW_MEMORY_def)


subsection \<open>Submission and projection\<close>


lemma submit_answers_duplicate:
  assumes "Survey_get s oid = Inr sv"
    and "\<not> SurveySharedModel.allow_multiple_submissions sv"
    and "\<exists>a \<in> set (survey_answer s). of_survey a = oid \<and> submitter a = Some u"
  shows "submit_answers s oid data (Some u) = Inl DuplicateSubmissionError"
proof -
  from assms(1) have "find (\<lambda>d. SurveyModel.id' d = oid) (survey s) = Some sv"
    by (simp add: Survey_get_def split: option.splits)
  with assms(2) have "unique_submissions s oid"
    by (simp add: unique_submissions_def)
  with assms(3) show ?thesis
    by (simp add: submit_answers_def recorded_def)
qed



text \<open>
  C2: with \<^verbatim>\<open>proxy_block = true\<close>, a known client address and a lookup that reports
  \<^verbatim>\<open>proxy = "yes"\<close>, the branch for a detected proxy does nothing: the submission is
  accepted and its answer set is persisted.
\<close>

theorem proxy_submission_accepted:
  "SurveySharedModel.proxy_block (survey_S\<lparr>proxy_block := True\<rparr>) \<and>
   Request.client (request_S None) = Some \<lparr>Address.host = ''203.0.113.7'', Address.port = 443\<rparr> \<and>
   GeoIp_get env_S ''203.0.113.7'' = Some [(''proxy'', ''yes'')] \<and>
   submit_survey env_S (state_S (survey_S\<lparr>proxy_block := True\<rparr>)) (request_S None)
      ''000000000000000000000001'' answers_S None
     = Inr (state_S (survey_S\<lparr>proxy_block := True\<rparr>)\<lparr>survey_answer := [answer_set_S None]\<rparr>)"
  by (simp add: submit_survey_def submit_survey_after_captcha_def Survey_get_def state_S_def
      env_S_def request_S_def survey_S_def submit_answers_def answer_set_S_def)

text \<open>
  C4 as stated fails where the survey also requires a captcha: without identity and
  without a valid token, the submission fails with a captcha error, not with
  \<^verbatim>\<open>InvalidAccountAuth\<close>.
\<close>

theorem login_required_captcha_first_counterexample:
  "SurveySharedModel.requires_login (survey_S\<lparr>requires_login := True, requires_captcha := True\<rparr>) \<and>
   Request.user (request_S None) = None \<and>
   submit_survey env_S (state_S (survey_S\<lparr>requires_login := True, requires_captcha := True\<rparr>))
      (request_S None) ''000000000000000000000001'' answers_S None
     = Inl CaptchaRequiredError \<and>
   submit_survey env_S (state_S (survey_S\<lparr>requires_login := True, requires_captcha := True\<rparr>))
      (request_S None) ''000000000000000000000001'' answers_S (Some ''token'')
     = Inl CaptchaInvalidError"
  by (simp add: submit_survey_def submit_survey_after_captcha_def Survey_get_def state_S_def
      env_S_def request_S_def survey_S_def submit_answers_def answer_set_S_def validate_captcha_def)


lemma after_captcha_no_identity:
  "SurveySharedModel.requires_login sv \<Longrightarrow> Request.user rq = None \<Longrightarrow>
   submit_survey_after_captcha env s rq oid sv data = Inl InvalidAccountAuth"
  by (simp add: submit_survey_after_captcha_def)

text \<open>
  C4, as amended: a submission without caller identity to a stored survey with
  \<^verbatim>\<open>requires_login = true\<close> always fails, so nothing is persisted. The captcha
  check runs first: where the survey requires a captcha, a missing token fails with
  \<^verbatim>\<open>CaptchaRequiredError\<close> and a rejected one with \<^verbatim>\<open>CaptchaInvalidError\<close>; in
  every other case the failure is \<^verbatim>\<open>InvalidAccountAuth\<close>, whatever the client address
  and the origin lookup are.
\<close>

theorem login_required_no_identity:
  assumes "ObjectId_of env sid = Some oid" and "Survey_get s oid = Inr sv"
    and "SurveySharedModel.requires_login sv" and "Request.user rq = None"
  shows "submit_survey env s rq sid data captcha =
     (if Survey.requires_captcha sv then
        (case captcha of
           None \<Rightarrow> Inl CaptchaRequiredError
         | Some t \<Rightarrow> if captcha_verify env t then Inl InvalidAccountAuth
                     else Inl CaptchaInvalidError)
      else Inl InvalidAccountAuth)"
  using assms
  by (simp add: submit_survey_def validate_captcha_def after_captcha_no_identity
      split: option.splits)

theorem login_required_no_identity_witness:
  "ObjectId_of env_S ''000000000000000000000001'' = Some 1 \<and>
   Survey_get (state_S (survey_S\<lparr>requires_login := True, proxy_block := True\<rparr>)) 1
     = Inr (survey_S\<lparr>requires_login := True, proxy_block := True\<rparr>) \<and>
   submit_survey env_S (state_S (survey_S\<lparr>requires_login := True, proxy_block := True\<rparr>))
     (request_S None) ''000000000000000000000001'' answers_S None = Inl InvalidAccountAuth"
  using login_required_no_identity [where env = env_S and sid = "''000000000000000000000001''"
      and oid = 1 and s = "state_S (survey_S\<lparr>requires_login := True, proxy_block := True\<rparr>)"
      and sv = "survey_S\<lparr>requires_login := True, proxy_block := True\<rparr>"
      and rq = "request_S None" and data = answers_S and captcha = None]
  by (simp add: env_S_def Survey_get_def state_S_def survey_S_def request_S_def)

lemma after_captcha_env:
  "submit_survey_after_captcha (env\<lparr>captcha_verify := v\<rparr>) s rq oid sv data =
   submit_survey_after_captcha env s rq oid sv data"
  by (simp add: submit_survey_after_captcha_def
      cong del: option.case_cong_weak sum.case_cong_weak if_weak_cong)

lemma submit_answers_not_captcha_error:
  "submit_answers s oid data uid \<noteq> Inl CaptchaRequiredError \<and>
   submit_answers s oid data uid \<noteq> Inl CaptchaInvalidError"
  by (simp add: submit_answers_def split: option.splits)

lemma after_captcha_not_captcha_error:
  "submit_survey_after_captcha env s rq oid sv data \<noteq> Inl CaptchaRequiredError \<and>
   submit_survey_after_captcha env s rq oid sv data \<noteq> Inl CaptchaInvalidError"
  by (simp add: submit_survey_after_captcha_def submit_answers_not_captcha_error
      split: option.splits)

text \<open>
  C3: for a stored survey that requires a captcha, a missing token fails the submission
  with \<^verbatim>\<open>CaptchaRequiredError\<close>, a token that the verifier rejects fails it with
  \<^verbatim>\<open>CaptchaInvalidError\<close>, and a token that the verifier accepts lets it go on with
  the rest of the handler. For a survey that does not require a captcha the check is a
  no-op: the handler goes on with the rest, never fails with a captcha error, and its
  outcome depends neither on the token nor on the verifier.
\<close>

theorem captcha_gate:
  assumes "ObjectId_of env sid = Some oid" and "Survey_get s oid = Inr sv"
  shows "(Survey.requires_captcha sv \<longrightarrow>
            (case captcha of
               None \<Rightarrow> submit_survey env s rq sid data captcha = Inl CaptchaRequiredError
             | Some t \<Rightarrow>
                 if captcha_verify env t
                 then submit_survey env s rq sid data captcha =
                        submit_survey_after_captcha env s rq oid sv data
                 else submit_survey env s rq sid data captcha = Inl CaptchaInvalidError)) \<and>
         (\<not> Survey.requires_captcha sv \<longrightarrow>
            submit_survey env s rq sid data captcha =
              submit_survey_after_captcha env s rq oid sv data \<and>
            submit_survey env s rq sid data captcha \<noteq> Inl CaptchaRequiredError \<and>
            submit_survey env s rq sid data captcha \<noteq> Inl CaptchaInvalidError \<and>
            (\<forall>v c. submit_survey (env\<lparr>captcha_verify := v\<rparr>) s rq sid data c =
                   submit_survey env s rq sid data captcha))"
  using assms after_captcha_not_captcha_error [of env s rq oid sv data]
  by (simp add: submit_survey_def validate_captcha_def after_captcha_env split: option.splits)

theorem captcha_gate_witness:
  "ObjectId_of env_S ''000000000000000000000001'' = Some 1 \<and>
   Survey_get (state_S (survey_S\<lparr>requires_captcha := True\<rparr>)) 1
     = Inr (survey_S\<lparr>requires_captcha := True\<rparr>) \<and>
   Survey.requires_captcha (survey_S\<lparr>requires_captcha := True\<rparr>) \<and>
   submit_survey env_S (state_S (survey_S\<lparr>requires_captcha := True\<rparr>)) (request_S None)
     ''000000000000000000000001'' answers_S None = Inl CaptchaRequiredError"
  using captcha_gate [where env = env_S and sid = "''000000000000000000000001''" and oid = 1
      and s = "state_S (survey_S\<lparr>requires_captcha := True\<rparr>)"
      and sv = "survey_S\<lparr>requires_captcha := True\<rparr>" and captcha = None
      and rq = "request_S None" and data = answers_S]
  by (simp add: env_S_def Survey_get_def state_S_def survey_S_def)

lemma projectPublic_private_irrelevant:
  "projectPublic
     (m\<lparr>SurveyCreateModel.secret_key := x,
        SurveyCreateModel.sign_keypair :=
          (SurveyCreateModel.sign_keypair m)
            \<lparr>SurveySignKeyPairModel.iv := a, SurveySignKeyPairModel.cipher_text := b\<rparr>,
        SurveyCreateModel.keypair :=
          (SurveyCreateModel.keypair m)\<lparr>SurveyKeypairModel.private_key := k\<rparr>\<rparr>)
   = projectPublic m"
  by (simp add: projectPublic_def)

lemma find_map_inv:
  "(\<And>x. P (f x) = P x) \<Longrightarrow> find P (map f xs) = map_option f (find P xs)"
  by (induction xs) auto

text \<open>
  C7: the public projection holds no private-key or secret-key cipher text. Its type
  \<^typ>\<open>SurveyPublicModel\<close> has no \<^verbatim>\<open>secret_key\<close> field and its two key fields have the
  public-key field only; and what \<^verbatim>\<open>public_survey\<close> returns does not change when the
  secret key, the private half of the signing key pair and the private half of the
  encryption key pair of the stored surveys are replaced by anything else.
\<close>

theorem public_survey_hides_private:
  "public_survey env
     (s\<lparr>State.survey :=
          map (\<lambda>d. d\<lparr>SurveyCreateModel.secret_key := x d,
                     SurveyCreateModel.sign_keypair :=
                       (SurveyCreateModel.sign_keypair d)
                         \<lparr>SurveySignKeyPairModel.iv := a d,
                          SurveySignKeyPairModel.cipher_text := b d\<rparr>,
                     SurveyCreateModel.keypair :=
                       (SurveyCreateModel.keypair d)
                         \<lparr>SurveyKeypairModel.private_key := k d\<rparr>\<rparr>)
              (State.survey s)\<rparr>) rq sid
   = public_survey env s rq sid"
proof -
  let ?f = "\<lambda>d::Survey. d\<lparr>SurveyCreateModel.secret_key := x d,
                     SurveyCreateModel.sign_keypair :=
                       (SurveyCreateModel.sign_keypair d)
                         \<lparr>SurveySignKeyPairModel.iv := a d,
                          SurveySignKeyPairModel.cipher_text := b d\<rparr>,
                     SurveyCreateModel.keypair :=
                       (SurveyCreateModel.keypair d)
                         \<lparr>SurveyKeypairModel.private_key := k d\<rparr>\<rparr>"
  have "Survey_public (s\<lparr>State.survey := map ?f (State.survey s)\<rparr>) oid = Survey_public s oid"
    for oid
  proof -
    have "find (\<lambda>d. SurveyModel.id' d = oid) (map ?f (State.survey s))
            = map_option ?f (find (\<lambda>d. SurveyModel.id' d = oid) (State.survey s))"
      by (rule find_map_inv) simp
    then show ?thesis
      by (simp add: Survey_public_def projectPublic_private_irrelevant split: option.splits)
  qed
  then show ?thesis
    by (simp add: public_survey_def cong del: option.case_cong_weak)
qed

lemma find_None_iff': "find P xs = None \<longleftrightarrow> \<not> (\<exists>x\<in>set xs. P x)"
  by (induction xs) auto

lemma find_Some_D: "find P xs = Some x \<Longrightarrow> x \<in> set xs \<and> P x"
  by (induction xs) (auto split: if_splits)



subsection \<open>Envelopes\<close>


lemma Envelope_model_Inr_iff:
  "Envelope_model w n p = Inr e \<longleftrightarrow>
     (\<exists>i c. Envelope_in.iv p = Some i \<and> Envelope_in.cipher_text p = Some c \<and> i \<noteq> [] \<and>
        iv_min_length w \<le> length i \<and> length i \<le> iv_max_length w \<and> length c \<le> n \<and>
        e = \<lparr>Envelope.iv = i, Envelope.cipher_text = c\<rparr>)"
  unfolding Envelope_model_def field_Inr_iff required_field_Inr_iff max_length_Inr_iff
    IvField_iv_Inr_iff
  by auto

lemma isl_iff_not_Inr: "isl r \<longleftrightarrow> (\<forall>y. r \<noteq> Inr y)"
  by (cases r) auto

lemma Envelope_model_isl_iff:
  "isl (Envelope_model w n p) \<longleftrightarrow>
     (case Envelope_in.iv p of
        None \<Rightarrow> True
      | Some i \<Rightarrow> i = [] \<or> length i < iv_min_length w \<or> iv_max_length w < length i) \<or>
     (case Envelope_in.cipher_text p of None \<Rightarrow> True | Some c \<Rightarrow> n < length c)"
  unfolding isl_iff_not_Inr Envelope_model_Inr_iff
  by (auto split: option.splits)

lemma SurveyChoicesModel_Inr_iff:
  "SurveyChoicesModel w p = Inr c \<longleftrightarrow>
     (\<exists>i n t. SurveyChoicesModel_in.iv p = Some i \<and> SurveyChoicesModel_in.id' p = Some n \<and>
        SurveyChoicesModel_in.cipher_text p = Some t \<and> i \<noteq> [] \<and>
        iv_min_length w \<le> length i \<and> length i \<le> iv_max_length w \<and>
        0 \<le> n \<and> n < 1024 \<and> length t \<le> 512 \<and>
        c = \<lparr>SurveyChoicesModel.iv = i, SurveyChoicesModel.id' = n,
             SurveyChoicesModel.cipher_text = t\<rparr>)"
  unfolding SurveyChoicesModel_def field_Inr_iff required_field_Inr_iff max_length_Inr_iff
    IvField_iv_Inr_iff ge_lt_Inr_iff
  by auto

lemma SurveyChoicesModel_isl_iff:
  "isl (SurveyChoicesModel w p) \<longleftrightarrow>
     (case SurveyChoicesModel_in.iv p of
        None \<Rightarrow> True
      | Some i \<Rightarrow> i = [] \<or> length i < iv_min_length w \<or> iv_max_length w < length i) \<or>
     (case SurveyChoicesModel_in.id' p of None \<Rightarrow> True | Some n \<Rightarrow> n < 0 \<or> 1024 \<le> n) \<or>
     (case SurveyChoicesModel_in.cipher_text p of None \<Rightarrow> True | Some c \<Rightarrow> 512 < length c)"
  unfolding isl_iff_not_Inr SurveyChoicesModel_Inr_iff
  by (auto split: option.splits)

lemma SurveySignKeyPairModel_Inr_iff:
  "SurveySignKeyPairModel w p = Inr k \<longleftrightarrow>
     (\<exists>i pk c. SurveySignKeyPairModel_in.iv p = Some i \<and>
        SurveySignPublicKeyModel_in.public_key p = Some pk \<and>
        SurveySignKeyPairModel_in.cipher_text p = Some c \<and> i \<noteq> [] \<and>
        iv_min_length w \<le> length i \<and> length i \<le> iv_max_length w \<and>
        length pk \<le> 44 \<and> length c \<le> 240 \<and>
        k = \<lparr>SurveySignPublicKeyModel.public_key = pk, SurveySignKeyPairModel.iv = i,
             SurveySignKeyPairModel.cipher_text = c\<rparr>)"
  unfolding SurveySignKeyPairModel_def field_Inr_iff required_field_Inr_iff max_length_Inr_iff
    IvField_iv_Inr_iff
  by auto

lemma SurveySignKeyPairModel_isl_iff:
  "isl (SurveySignKeyPairModel w p) \<longleftrightarrow>
     (case SurveySignKeyPairModel_in.iv p of
        None \<Rightarrow> True
      | Some i \<Rightarrow> i = [] \<or> length i < iv_min_length w \<or> iv_max_length w < length i) \<or>
     (case SurveySignPublicKeyModel_in.public_key p of None \<Rightarrow> True | Some k \<Rightarrow> 44 < length k) \<or>
     (case SurveySignKeyPairModel_in.cipher_text p of None \<Rightarrow> True | Some c \<Rightarrow> 240 < length c)"
  unfolding isl_iff_not_Inr SurveySignKeyPairModel_Inr_iff
  by (auto split: option.splits)

lemma Account_key_pairs:
  "AccountEd25199Modal w p = SurveySignKeyPairModel w p \<and>
   AccountX25519Model w p = SurveySignKeyPairModel w p"
  by (simp add: AccountEd25199Modal_def AccountX25519Model_def SurveySignKeyPairModel_def)

text \<open>
  C6, as amended: validation of an envelope fails exactly when \<^verbatim>\<open>iv\<close> is absent, empty
  or of a length outside its window, or \<^verbatim>\<open>cipher_text\<close> is absent or longer than the
  maximum of the site: 128 for a title, 1024 for a description, 256 for a question, 128
  for a regex, 240 for the secret key and the halves of the encryption key pair, 82 for
  the keychain. An envelope with a further field fails in the same cases and when that
  field fails its own check: a choice (maximum 512) when its id is absent or outside
  \<open>[0, 1024)\<close>, the signing key pair of a survey and the two key pairs of an account
  (maximum 240) when \<^verbatim>\<open>public_key\<close> is absent or longer than 44. An empty
  \<^verbatim>\<open>cipher_text\<close> is accepted. Validation is a function of the payload only.
\<close>

theorem envelope_rejected_iff:
  "(isl (Envelope_model w n p) \<longleftrightarrow>
      (case Envelope_in.iv p of
         None \<Rightarrow> True
       | Some i \<Rightarrow> i = [] \<or> length i < iv_min_length w \<or> iv_max_length w < length i) \<or>
      (case Envelope_in.cipher_text p of None \<Rightarrow> True | Some c \<Rightarrow> n < length c)) \<and>
   TitleModel w p = Envelope_model w 128 p \<and>
   SurveyDescriptionModel w p = Envelope_model w 1024 p \<and>
   SurveyQuestionsModel w p = Envelope_model w 256 p \<and>
   SurveyRegexModel w p = Envelope_model w 128 p \<and>
   SurveySecretKeyModel w p = Envelope_model w 240 p \<and>
   SurveyKeypairCipherModel w p = Envelope_model w 240 p \<and>
   AccountKeychainModal w p = Envelope_model w 82 p \<and>
   (isl (SurveyChoicesModel w q) \<longleftrightarrow>
      (case SurveyChoicesModel_in.iv q of
         None \<Rightarrow> True
       | Some i \<Rightarrow> i = [] \<or> length i < iv_min_length w \<or> iv_max_length w < length i) \<or>
      (case SurveyChoicesModel_in.id' q of None \<Rightarrow> True | Some n \<Rightarrow> n < 0 \<or> 1024 \<le> n) \<or>
      (case SurveyChoicesModel_in.cipher_text q of None \<Rightarrow> True | Some c \<Rightarrow> 512 < length c)) \<and>
   (isl (SurveySignKeyPairModel w k) \<longleftrightarrow>
      (case SurveySignKeyPairModel_in.iv k of
         None \<Rightarrow> True
       | Some i \<Rightarrow> i = [] \<or> length i < iv_min_length w \<or> iv_max_length w < length i) \<or>
      (case SurveySignPublicKeyModel_in.public_key k of
         None \<Rightarrow> True
       | Some pk \<Rightarrow> 44 < length pk) \<or>
      (case SurveySignKeyPairModel_in.cipher_text k of None \<Rightarrow> True | Some c \<Rightarrow> 240 < length c)) \<and>
   AccountEd25199Modal w k = SurveySignKeyPairModel w k \<and>
   AccountX25519Model w k = SurveySignKeyPairModel w k"
  using Envelope_model_isl_iff [of w n p] SurveyChoicesModel_isl_iff [of w q]
    SurveySignKeyPairModel_isl_iff [of w k] Account_key_pairs [of w k]
  by (simp add: TitleModel_def SurveyDescriptionModel_def SurveyQuestionsModel_def
      SurveyRegexModel_def SurveySecretKeyModel_def SurveyKeypairCipherModel_def
      AccountKeychainModal_def)

theorem envelope_rejected_iff_witness:
  "isl (TitleModel window_S \<lparr>Envelope_in.iv = Some iv_S, Envelope_in.cipher_text = None\<rparr>) \<and>
   isl (TitleModel window_S
     \<lparr>Envelope_in.iv = Some iv_S, Envelope_in.cipher_text = Some (replicate 129 CHR ''A'')\<rparr>) \<and>
   \<not> isl (TitleModel window_S
     \<lparr>Envelope_in.iv = Some iv_S, Envelope_in.cipher_text = Some (replicate 128 CHR ''A'')\<rparr>) \<and>
   isl (TitleModel window_S
     \<lparr>Envelope_in.iv = Some [], Envelope_in.cipher_text = Some ''Y2lwaGVy''\<rparr>) \<and>
   isl (AccountX25519Model window_S
     \<lparr>SurveySignPublicKeyModel_in.public_key = Some (replicate 45 CHR ''A''),
      SurveySignKeyPairModel_in.iv = Some iv_S,
      SurveySignKeyPairModel_in.cipher_text = Some ''cHJpdg==''\<rparr>)"
proof -
  let ?q = "\<lparr>SurveyChoicesModel_in.iv = None, SurveyChoicesModel_in.id' = None,
            SurveyChoicesModel_in.cipher_text = None\<rparr>"
  let ?k = "\<lparr>SurveySignPublicKeyModel_in.public_key = Some (replicate 45 CHR ''A''),
      SurveySignKeyPairModel_in.iv = Some iv_S,
      SurveySignKeyPairModel_in.cipher_text = Some ''cHJpdg==''\<rparr>"
  note a = envelope_rejected_iff [where w = window_S and n = 128 and q = ?q and k = ?k
      and p = "\<lparr>Envelope_in.iv = Some iv_S, Envelope_in.cipher_text = None\<rparr>",
      THEN conjunct1]
  note b = envelope_rejected_iff [where w = window_S and n = 128 and q = ?q and k = ?k
      and p = "\<lparr>Envelope_in.iv = Some iv_S,
               Envelope_in.cipher_text = Some (replicate 129 CHR ''A'')\<rparr>",
      THEN conjunct1]
  note c = envelope_rejected_iff [where w = window_S and n = 128 and q = ?q and k = ?k
      and p = "\<lparr>Envelope_in.iv = Some iv_S,
               Envelope_in.cipher_text = Some (replicate 128 CHR ''A'')\<rparr>",
      THEN conjunct1]
  note d = envelope_rejected_iff [where w = window_S and n = 128 and q = ?q and k = ?k
      and p = "\<lparr>Envelope_in.iv = Some [], Envelope_in.cipher_text = Some ''Y2lwaGVy''\<rparr>",
      THEN conjunct1]
  note e = envelope_rejected_iff [where w = window_S and n = 128 and q = ?q and k = ?k
      and p = "\<lparr>Envelope_in.iv = Some iv_S, Envelope_in.cipher_text = None\<rparr>"]
  from e have k1: "AccountX25519Model window_S ?k = SurveySignKeyPairModel window_S ?k"
    by blast
  from e have k2: "isl (SurveySignKeyPairModel window_S ?k)"
    by (simp add: window_S_def iv_S_def)
  show ?thesis
    unfolding TitleModel_def a b c d k1 using k2 by (simp add: window_S_def iv_S_def)
qed

text \<open>
  C6 as stated fails on four inputs. An empty \<^verbatim>\<open>cipher_text\<close> is accepted: the
  fields carry \<^verbatim>\<open>max_length\<close> and no minimum. And validation fails although \<^verbatim>\<open>iv\<close>
  and \<^verbatim>\<open>cipher_text\<close> are present, not empty and within the maximum: for an \<^verbatim>\<open>iv\<close>
  longer than its window, for a choice with id 1024, and for a signing key pair without
  \<^verbatim>\<open>public_key\<close>.
\<close>

theorem envelope_exactly_when_counterexample:
  "TitleModel window_S \<lparr>Envelope_in.iv = Some iv_S, Envelope_in.cipher_text = Some []\<rparr>
     = Inr \<lparr>Envelope.iv = iv_S, Envelope.cipher_text = []\<rparr> \<and>
   SurveyDescriptionModel window_S \<lparr>Envelope_in.iv = Some iv_S, Envelope_in.cipher_text = Some []\<rparr>
     = Inr \<lparr>Envelope.iv = iv_S, Envelope.cipher_text = []\<rparr> \<and>
   TitleModel window_S
     \<lparr>Envelope_in.iv = Some (iv_S @ ''A''), Envelope_in.cipher_text = Some ''Y2lwaGVy''\<rparr>
     = Inl [MaxLength 32] \<and>
   SurveyChoicesModel window_S
     \<lparr>SurveyChoicesModel_in.iv = Some iv_S, SurveyChoicesModel_in.id' = Some 1024,
      SurveyChoicesModel_in.cipher_text = Some ''YQ==''\<rparr>
     = Inl [NotLt 1024] \<and>
   SurveySignKeyPairModel window_S
     \<lparr>SurveySignPublicKeyModel_in.public_key = None,
      SurveySignKeyPairModel_in.iv = Some iv_S,
      SurveySignKeyPairModel_in.cipher_text = Some ''cHJpdg==''\<rparr>
     = Inl [Missing]"
  by (simp add: TitleModel_def SurveyDescriptionModel_def Envelope_model_def
      SurveyChoicesModel_def SurveySignKeyPairModel_def field_def errs_def
      required_field_def IvField_iv_def max_length_def ge_lt_def window_S_def iv_S_def)


subsection \<open>Survey-create validation\<close>


lemma items_Inr_iff:
  "items chk xs = Inr ys \<longleftrightarrow> list_all2 (\<lambda>x y. chk x = Inr y) xs ys"
proof (induction xs arbitrary: ys)
  case Nil
  show ?case by auto
next
  case (Cons x xs)
  show ?case
    by (cases ys) (auto simp: field_Inr_iff Cons.IH)
qed

lemma max_items_Inr_iff:
  "max_items n chk xs = Inr ys \<longleftrightarrow>
     length xs \<le> n \<and> list_all2 (\<lambda>x y. chk x = Inr y) xs ys"
  by (auto simp: max_items_def items_Inr_iff)

lemma validator_Inr_iff:
  "validator f r = Inr y \<longleftrightarrow> (\<exists>v. r = Inr v \<and> f v = Inr y)"
  by (auto simp: validator_def split: sum.splits)

lemma any_Inr_iff: "any x = Inr y \<longleftrightarrow> y = x"
  by (auto simp: any_def)

lemma length_card_distinct: "length xs \<noteq> card (set xs) \<longleftrightarrow> \<not> distinct xs"
  using card_distinct [of xs] distinct_card [of xs] by auto

lemma questions_validator_Inr_iff:
  "questions_validator v = Inr u \<longleftrightarrow> distinct (map SurveyQuestionModel.id' v) \<and> u = v"
  unfolding questions_validator_def Let_def length_card_distinct by auto

lemma choices_validator_Inr_iff:
  "choices_validator v = Inr u \<longleftrightarrow>
     u = v \<and> (\<forall>cs. v = Some cs \<longrightarrow> distinct (map SurveyChoicesModel.id' cs))"
  unfolding choices_validator_def Let_def length_card_distinct
  by (auto split: option.splits list.splits)

lemma SurveyQuestionType_Inr_iff:
  "SurveyQuestionType v = Inr t \<longleftrightarrow> v = SurveyQuestionType_value t"
  by (cases t) (auto simp: SurveyQuestionType_def)

lemma SurveyQuestionModel_fields:
  "SurveyQuestionModel w p = Inr y \<longleftrightarrow>
     required_field (SurveyQuestionModel_in.id' p) (ge_lt 0 1024) = Inr (SurveyQuestionModel.id' y) \<and>
     optional_field (SurveyQuestionModel_in.regex p) (SurveyRegexModel w)
       = Inr (SurveyQuestionModel.regex y) \<and>
     optional_field (SurveyQuestionModel_in.description p) (SurveyDescriptionModel w)
       = Inr (SurveyQuestionModel.description y) \<and>
     required_field (SurveyQuestionModel_in.question p) (SurveyQuestionsModel w)
       = Inr (SurveyQuestionModel.question y) \<and>
     validator choices_validator
       (optional_field (SurveyQuestionModel_in.choices p) (max_items 56 (SurveyChoicesModel w)))
       = Inr (SurveyQuestionModel.choices y) \<and>
     default_field False (SurveyQuestionModel_in.required p) any
       = Inr (SurveyQuestionModel.required y) \<and>
     required_field (SurveyQuestionModel_in.type p) SurveyQuestionType
       = Inr (SurveyQuestionModel.type y)"
  unfolding SurveyQuestionModel_def field_Inr_iff
  by (cases y) auto

lemma SurveySharedModel_fields:
  "SurveySharedModel w p = Inr y \<longleftrightarrow>
     required_field (SurveySharedModel_in.title p) (TitleModel w) = Inr (SurveySharedModel.title y) \<and>
     optional_field (SurveySharedModel_in.description p) (SurveyDescriptionModel w)
       = Inr (SurveySharedModel.description y) \<and>
     validator questions_validator
       (required_field (SurveySharedModel_in.questions p) (max_items 128 (SurveyQuestionModel w)))
       = Inr (SurveySharedModel.questions y) \<and>
     required_field (SurveySharedModel_in.signature p) (max_length 128)
       = Inr (SurveySharedModel.signature y) \<and>
     default_field False (SurveySharedModel_in.requires_login p) any
       = Inr (SurveySharedModel.requires_login y) \<and>
     default_field False (SurveySharedModel_in.proxy_block p) any
       = Inr (SurveySharedModel.proxy_block y) \<and>
     default_field False (SurveySharedModel_in.allow_multiple_submissions p) any
       = Inr (SurveySharedModel.allow_multiple_submissions y) \<and>
     default_field ''XChaCha20Poly1305+ED25519+X25519_XSalsa20Poly1305+BLAKE2b''
       (SurveySharedModel_in.algorithms p) any = Inr (SurveySharedModel.algorithms y)"
  unfolding SurveySharedModel_def field_Inr_iff
  by (cases y) auto

lemma SurveyCreateModel_fields:
  "SurveyCreateModel w p = Inr y \<longleftrightarrow>
     SurveySharedModel w p = Inr (SurveySharedModel.truncate y) \<and>
     required_field (SurveyCreateModel_in.sign_keypair p) (SurveySignKeyPairModel w)
       = Inr (SurveyCreateModel.sign_keypair y) \<and>
     required_field (SurveyCreateModel_in.secret_key p) (SurveySecretKeyModel w)
       = Inr (SurveyCreateModel.secret_key y) \<and>
     required_field (SurveyCreateModel_in.keypair p) (SurveyKeypairModel w)
       = Inr (SurveyCreateModel.keypair y)"
  unfolding SurveyCreateModel_def field_Inr_iff
  by (cases y)
    (auto simp: SurveySharedModel.extend_def SurveyCreateModel.fields_def
      SurveySharedModel.truncate_def)

lemma SurveyModel_fields:
  "SurveyModel w p = Inr y \<longleftrightarrow>
     SurveyCreateModel w p = Inr (SurveyCreateModel.truncate y) \<and>
     SurveyModel_in.created p = Some (SurveyModel.created y) \<and>
     SurveyModel_in.id' p = Some (SurveyModel.id' y) \<and>
     SurveyModel_in.user_id p = Some (SurveyModel.user_id y)"
  unfolding SurveyModel_def field_Inr_iff required_field_Inr_iff any_Inr_iff
  by (cases y)
    (auto simp: SurveyCreateModel.extend_def SurveyModel.fields_def
      SurveyCreateModel.truncate_def)

lemma errs_Inr [simp]: "errs (Inr v) = []"
  by (simp add: errs_def)

lemma errs_Inl [simp]: "errs (Inl es) = es"
  by (simp add: errs_def)

lemma set_errs_field: "set (errs (field f x)) = set (errs f) \<union> set (errs x)"
  by (cases f; cases x) (simp_all add: field_def)

lemma set_errs_items:
  "x \<in> set xs \<Longrightarrow> set (errs (chk x)) \<subseteq> set (errs (items chk xs))"
  by (induction xs) (auto simp: set_errs_field)

lemma set_errs_validator: "set (errs r) \<subseteq> set (errs (validator f r))"
  by (cases r) (simp_all add: validator_def)

lemma items_total:
  "(\<forall>x \<in> set xs. \<not> isl (chk x)) \<Longrightarrow> \<exists>ys. items chk xs = Inr ys"
proof (induction xs)
  case Nil
  show ?case by simp
next
  case (Cons x xs)
  then obtain ys where ys: "items chk xs = Inr ys" by auto
  from Cons.prems obtain y where "chk x = Inr y" by (cases "chk x") auto
  with ys show ?case by (simp add: field_def)
qed

lemma list_all2_map_eq:
  "list_all2 (\<lambda>x y. f x = g y) xs ys \<Longrightarrow> map f xs = map g ys"
  by (induction xs ys rule: list_all2_induct) auto

lemma list_all2_weaken:
  "list_all2 P xs ys \<Longrightarrow> (\<And>x y. P x y \<Longrightarrow> Q x y) \<Longrightarrow> list_all2 Q xs ys"
  by (erule list_all2_mono)

lemma distinct_map_Some: "distinct (map (\<lambda>x. Some (f x)) xs) \<longleftrightarrow> distinct (map f xs)"
  by (induction xs) auto

lemma choices_ids:
  assumes "list_all2 (\<lambda>c v. SurveyChoicesModel w c = Inr v) cs vs"
  shows "map SurveyChoicesModel_in.id' cs = map (\<lambda>v. Some (SurveyChoicesModel.id' v)) vs"
  by (rule list_all2_map_eq, rule list_all2_weaken [OF assms])
    (auto simp: SurveyChoicesModel_Inr_iff)

lemma choices_in_range:
  assumes "list_all2 (\<lambda>c v. SurveyChoicesModel w c = Inr v) cs vs" and "c \<in> set cs"
  shows "\<exists>j. SurveyChoicesModel_in.id' c = Some j \<and> 0 \<le> j \<and> j < 1024"
proof -
  from assms obtain v where "SurveyChoicesModel w c = Inr v"
    by (auto simp: list_all2_conv_all_nth in_set_conv_nth)
  then show ?thesis by (auto simp: SurveyChoicesModel_Inr_iff)
qed

lemma question_accepted:
  assumes "SurveyQuestionModel w x = Inr y"
  shows "SurveyQuestionModel_in.id' x = Some (SurveyQuestionModel.id' y) \<and>
         0 \<le> SurveyQuestionModel.id' y \<and> SurveyQuestionModel.id' y < 1024 \<and>
         (\<forall>cs. SurveyQuestionModel_in.choices x = Some cs \<longrightarrow>
            length cs \<le> 56 \<and> distinct (map SurveyChoicesModel_in.id' cs) \<and>
            (\<forall>c \<in> set cs. \<exists>j. SurveyChoicesModel_in.id' c = Some j \<and> 0 \<le> j \<and> j < 1024))"
proof -
  from assms have
    i: "required_field (SurveyQuestionModel_in.id' x) (ge_lt 0 1024)
          = Inr (SurveyQuestionModel.id' y)" and
    c: "validator choices_validator
          (optional_field (SurveyQuestionModel_in.choices x) (max_items 56 (SurveyChoicesModel w)))
          = Inr (SurveyQuestionModel.choices y)"
    by (simp_all add: SurveyQuestionModel_fields)
  from i have 1: "SurveyQuestionModel_in.id' x = Some (SurveyQuestionModel.id' y) \<and>
         0 \<le> SurveyQuestionModel.id' y \<and> SurveyQuestionModel.id' y < 1024"
    by (auto simp: required_field_Inr_iff ge_lt_Inr_iff)
  have 2: "length cs \<le> 56 \<and> distinct (map SurveyChoicesModel_in.id' cs) \<and>
            (\<forall>c \<in> set cs. \<exists>j. SurveyChoicesModel_in.id' c = Some j \<and> 0 \<le> j \<and> j < 1024)"
    if cs: "SurveyQuestionModel_in.choices x = Some cs" for cs
  proof -
    from c cs obtain vs where vs: "length cs \<le> 56"
      "list_all2 (\<lambda>c v. SurveyChoicesModel w c = Inr v) cs vs"
      "distinct (map SurveyChoicesModel.id' vs)"
      by (auto simp: validator_Inr_iff optional_field_Inr_iff max_items_Inr_iff
          choices_validator_Inr_iff)
    from vs(2,3) have "distinct (map SurveyChoicesModel_in.id' cs)"
      by (simp add: choices_ids distinct_map_Some)
    with vs(1) choices_in_range [OF vs(2)] show ?thesis by blast
  qed
  from 1 2 show ?thesis by blast
qed

lemma questions_ids:
  assumes "list_all2 (\<lambda>q v. SurveyQuestionModel w q = Inr v) qs vs"
  shows "map SurveyQuestionModel_in.id' qs = map (\<lambda>v. Some (SurveyQuestionModel.id' v)) vs"
  by (rule list_all2_map_eq, rule list_all2_weaken [OF assms]) (auto dest: question_accepted)

lemma create_accepted:
  assumes "SurveyCreateModel w p = Inr m"
  shows "\<exists>qs. SurveySharedModel_in.questions p = Some qs \<and> length qs \<le> 128 \<and>
           distinct (map SurveyQuestionModel_in.id' qs) \<and>
           (\<forall>q \<in> set qs.
              (\<exists>i. SurveyQuestionModel_in.id' q = Some i \<and> 0 \<le> i \<and> i < 1024) \<and>
              (\<forall>cs. SurveyQuestionModel_in.choices q = Some cs \<longrightarrow>
                 length cs \<le> 56 \<and> distinct (map SurveyChoicesModel_in.id' cs) \<and>
                 (\<forall>c \<in> set cs. \<exists>j. SurveyChoicesModel_in.id' c = Some j \<and> 0 \<le> j \<and> j < 1024)))"
proof -
  from assms have "validator questions_validator
       (required_field (SurveySharedModel_in.questions p) (max_items 128 (SurveyQuestionModel w)))
       = Inr (SurveySharedModel.questions (SurveySharedModel.truncate m))"
    by (simp add: SurveyCreateModel_fields SurveySharedModel_fields)
  then obtain qs vs where qs: "SurveySharedModel_in.questions p = Some qs" "length qs \<le> 128"
    "list_all2 (\<lambda>q v. SurveyQuestionModel w q = Inr v) qs vs"
    "distinct (map SurveyQuestionModel.id' vs)"
    by (auto simp: validator_Inr_iff required_field_Inr_iff max_items_Inr_iff
        questions_validator_Inr_iff)
  from qs(3,4) have d: "distinct (map SurveyQuestionModel_in.id' qs)"
    by (simp add: questions_ids distinct_map_Some)
  have "(\<exists>i. SurveyQuestionModel_in.id' q = Some i \<and> 0 \<le> i \<and> i < 1024) \<and>
              (\<forall>cs. SurveyQuestionModel_in.choices q = Some cs \<longrightarrow>
                 length cs \<le> 56 \<and> distinct (map SurveyChoicesModel_in.id' cs) \<and>
                 (\<forall>c \<in> set cs. \<exists>j. SurveyChoicesModel_in.id' c = Some j \<and> 0 \<le> j \<and> j < 1024))"
    if "q \<in> set qs" for q
  proof -
    from qs(3) that obtain v where "SurveyQuestionModel w q = Inr v"
      by (auto simp: list_all2_conv_all_nth in_set_conv_nth)
    from question_accepted [OF this] show ?thesis by blast
  qed
  with qs(1,2) d show ?thesis by blast
qed

lemma set_errs_create_questions:
  "set (errs (validator questions_validator
       (required_field (SurveySharedModel_in.questions p) (max_items 128 (SurveyQuestionModel w)))))
   \<subseteq> set (errs (SurveyCreateModel w p))"
  by (auto simp: SurveyCreateModel_def SurveySharedModel_def set_errs_field)

lemma duplicate_question_ids:
  assumes "SurveySharedModel_in.questions p = Some qs" and "length qs \<le> 128"
    and "\<forall>q \<in> set qs. \<not> isl (SurveyQuestionModel w q)"
    and "\<not> distinct (map SurveyQuestionModel_in.id' qs)"
  shows "ValueError ''Duplicate question ids'' \<in> set (errs (SurveyCreateModel w p))"
proof -
  from items_total [OF assms(3)] obtain vs where vs: "items (SurveyQuestionModel w) qs = Inr vs"
    by blast
  then have "list_all2 (\<lambda>q v. SurveyQuestionModel w q = Inr v) qs vs"
    by (simp add: items_Inr_iff)
  with assms(4) have "\<not> distinct (map SurveyQuestionModel.id' vs)"
    by (simp add: questions_ids distinct_map_Some)
  then have "questions_validator vs = Inl [ValueError ''Duplicate question ids'']"
    by (simp add: questions_validator_def length_card_distinct)
  with vs assms(1,2) have "validator questions_validator
       (required_field (SurveySharedModel_in.questions p) (max_items 128 (SurveyQuestionModel w)))
       = Inl [ValueError ''Duplicate question ids'']"
    by (simp add: validator_def required_field_def max_items_def)
  with set_errs_create_questions [of p w] show ?thesis by simp
qed

lemma duplicate_choice_ids_question:
  assumes "SurveyQuestionModel_in.choices q = Some cs" and "length cs \<le> 56"
    and "\<forall>c \<in> set cs. \<not> isl (SurveyChoicesModel w c)"
    and "\<not> distinct (map SurveyChoicesModel_in.id' cs)"
  shows "ValueError ''Duplicate choices ids'' \<in> set (errs (SurveyQuestionModel w q))"
proof -
  from items_total [OF assms(3)] obtain vs where vs: "items (SurveyChoicesModel w) cs = Inr vs"
    by blast
  then have "list_all2 (\<lambda>c v. SurveyChoicesModel w c = Inr v) cs vs"
    by (simp add: items_Inr_iff)
  with assms(4) have nd: "\<not> distinct (map SurveyChoicesModel.id' vs)"
    by (simp add: choices_ids distinct_map_Some)
  then have "vs \<noteq> []" by auto
  with nd have "choices_validator (Some vs) = Inl [ValueError ''Duplicate choices ids'']"
    by (cases vs) (simp_all add: choices_validator_def length_card_distinct Let_def)
  with vs assms(1,2) have "validator choices_validator
       (optional_field (SurveyQuestionModel_in.choices q) (max_items 56 (SurveyChoicesModel w)))
       = Inl [ValueError ''Duplicate choices ids'']"
    by (simp add: validator_def optional_field_def max_items_def)
  then show ?thesis
    by (simp add: SurveyQuestionModel_def set_errs_field)
qed

lemma duplicate_choice_ids:
  assumes "SurveySharedModel_in.questions p = Some qs" and "length qs \<le> 128"
    and "q \<in> set qs" and "SurveyQuestionModel_in.choices q = Some cs" and "length cs \<le> 56"
    and "\<forall>c \<in> set cs. \<not> isl (SurveyChoicesModel w c)"
    and "\<not> distinct (map SurveyChoicesModel_in.id' cs)"
  shows "ValueError ''Duplicate choices ids'' \<in> set (errs (SurveyCreateModel w p))"
proof -
  have "ValueError ''Duplicate choices ids'' \<in> set (errs (SurveyQuestionModel w q))"
    by (rule duplicate_choice_ids_question [OF assms(4-7)])
  with set_errs_items [OF assms(3), of "SurveyQuestionModel w"]
  have "ValueError ''Duplicate choices ids'' \<in> set (errs (items (SurveyQuestionModel w) qs))"
    by blast
  with assms(1,2) have "ValueError ''Duplicate choices ids'' \<in>
      set (errs (required_field (SurveySharedModel_in.questions p)
        (max_items 128 (SurveyQuestionModel w))))"
    by (simp add: required_field_def max_items_def)
  with set_errs_validator set_errs_create_questions [of p w] show ?thesis by blast
qed

lemma payload_S_accepted:
  "SurveyCreateModel window_S payload_S = Inr (SurveyCreateModel.truncate survey_S)"
  by (simp add: SurveyCreateModel_def SurveySharedModel_def SurveyQuestionModel_def
      SurveyChoicesModel_def SurveySignKeyPairModel_def SurveyKeypairModel_def
      SurveyKeypairCipherModel_def SurveySecretKeyModel_def TitleModel_def
      SurveyDescriptionModel_def SurveyQuestionsModel_def SurveyRegexModel_def
      Envelope_model_def payload_S_def SurveyCreateModel_dict_def survey_S_def question_S_def
      envelope_S_def iv_S_def window_S_def Envelope_dict_def SurveyQuestionModel_dict_def
      SurveyChoicesModel_dict_def SurveySignKeyPairModel_dict_def SurveyKeypairModel_dict_def
      field_def required_field_def optional_field_def default_field_def any_def max_length_def
      ge_lt_def IvField_iv_def max_items_def validator_def questions_validator_def
      choices_validator_def SurveyQuestionType_def
      SurveySharedModel.extend_def SurveyCreateModel.fields_def SurveyCreateModel.truncate_def)

lemma question_S_accepted:
  "SurveyQuestionModel window_S (SurveyQuestionModel_dict question_S) = Inr question_S"
  by (simp add: SurveyQuestionModel_def SurveyChoicesModel_def SurveyDescriptionModel_def
      SurveyQuestionsModel_def SurveyRegexModel_def Envelope_model_def question_S_def
      envelope_S_def iv_S_def window_S_def Envelope_dict_def SurveyQuestionModel_dict_def
      SurveyChoicesModel_dict_def field_def required_field_def optional_field_def
      default_field_def any_def max_length_def ge_lt_def IvField_iv_def max_items_def
      validator_def choices_validator_def SurveyQuestionType_def)

text \<open>
  C5 as stated fails on payloads in which questions share an id and the list fails a
  check of its own: there the \<^verbatim>\<open>@validator\<close> does not run, and the payload is rejected
  without a duplicate-id error. The question of \<open>S\<close> 129 times fails with the count
  error only; the question of \<open>S\<close> twice next to a question with id 1024 fails with the
  range error only.
\<close>

theorem duplicate_ids_other_error_counterexample:
  "SurveySharedModel_in.questions payload_129
     = Some (replicate 129 (SurveyQuestionModel_dict question_S)) \<and>
   SurveyCreateModel window_S payload_129 = Inl [MaxItems 128] \<and>
   SurveySharedModel_in.questions payload_1024
     = Some [SurveyQuestionModel_dict question_S, SurveyQuestionModel_dict question_S,
             (SurveyQuestionModel_dict question_S)\<lparr>SurveyQuestionModel_in.id' := Some 1024\<rparr>] \<and>
   SurveyCreateModel window_S payload_1024 = Inl [NotLt 1024]"
proof -
  have q: "SurveyQuestionModel window_S
      ((SurveyQuestionModel_dict question_S)\<lparr>SurveyQuestionModel_in.id' := Some 1024\<rparr>)
      = Inl [NotLt 1024]"
    by (simp add: SurveyQuestionModel_def SurveyChoicesModel_def SurveyDescriptionModel_def
        SurveyQuestionsModel_def SurveyRegexModel_def Envelope_model_def question_S_def
        envelope_S_def iv_S_def window_S_def Envelope_dict_def SurveyQuestionModel_dict_def
        SurveyChoicesModel_dict_def field_def required_field_def optional_field_def
        default_field_def any_def max_length_def ge_lt_def IvField_iv_def max_items_def
        validator_def choices_validator_def SurveyQuestionType_def errs_def)
  have a: "SurveyCreateModel window_S payload_129 = Inl [MaxItems 128]"
    by (simp add: SurveyCreateModel_def SurveySharedModel_def
        SurveySignKeyPairModel_def SurveyKeypairModel_def
        SurveyKeypairCipherModel_def SurveySecretKeyModel_def TitleModel_def
        SurveyDescriptionModel_def Envelope_model_def payload_129_def payload_S_def
        SurveyCreateModel_dict_def survey_S_def
        envelope_S_def iv_S_def window_S_def Envelope_dict_def
        SurveySignKeyPairModel_dict_def SurveyKeypairModel_dict_def
        field_def required_field_def optional_field_def default_field_def any_def
        max_length_def IvField_iv_def max_items_def validator_def errs_def)
  have i: "max_items 128 (SurveyQuestionModel window_S)
      [SurveyQuestionModel_dict question_S, SurveyQuestionModel_dict question_S,
       (SurveyQuestionModel_dict question_S)\<lparr>SurveyQuestionModel_in.id' := Some 1024\<rparr>]
      = Inl [NotLt 1024]"
    by (simp add: max_items_def field_def errs_def question_S_accepted q)
  have b: "SurveyCreateModel window_S payload_1024 = Inl [NotLt 1024]"
    by (simp add: i [unfolded window_S_def] SurveyCreateModel_def SurveySharedModel_def
        SurveySignKeyPairModel_def SurveyKeypairModel_def
        SurveyKeypairCipherModel_def SurveySecretKeyModel_def TitleModel_def
        SurveyDescriptionModel_def Envelope_model_def payload_1024_def payload_S_def
        SurveyCreateModel_dict_def survey_S_def
        envelope_S_def iv_S_def window_S_def Envelope_dict_def
        SurveySignKeyPairModel_dict_def SurveyKeypairModel_dict_def
        field_def required_field_def optional_field_def default_field_def any_def
        max_length_def IvField_iv_def validator_def errs_def)
  from a b show ?thesis
    by (simp add: payload_129_def payload_1024_def)
qed

text \<open>
  C5, as amended: survey-create validation accepts a payload only if it has at most 128
  questions whose ids are pairwise distinct and lie in \<open>[0, 1024)\<close>, and every question
  that lists choices has at most 56 of them, with ids pairwise distinct and in
  \<open>[0, 1024)\<close>. So every payload with two questions sharing an id, or two choices of
  one question sharing an id, fails validation. It fails with the duplicate-id error
  (\<^verbatim>\<open>Duplicate question ids\<close>, \<^verbatim>\<open>Duplicate choices ids\<close>) where the list itself
  passes its own checks: at most 128 questions, each valid on its own; at most 56
  choices, each valid on its own.
\<close>

theorem SurveyCreateModel_ids:
  "(\<forall>m. SurveyCreateModel w p = Inr m \<longrightarrow>
      (\<exists>qs. SurveySharedModel_in.questions p = Some qs \<and> length qs \<le> 128 \<and>
         distinct (map SurveyQuestionModel_in.id' qs) \<and>
         (\<forall>q \<in> set qs.
            (\<exists>i. SurveyQuestionModel_in.id' q = Some i \<and> 0 \<le> i \<and> i < 1024) \<and>
            (\<forall>cs. SurveyQuestionModel_in.choices q = Some cs \<longrightarrow>
               length cs \<le> 56 \<and> distinct (map SurveyChoicesModel_in.id' cs) \<and>
               (\<forall>c \<in> set cs.
                  \<exists>j. SurveyChoicesModel_in.id' c = Some j \<and> 0 \<le> j \<and> j < 1024))))) \<and>
   (\<forall>qs. SurveySharedModel_in.questions p = Some qs \<and>
      \<not> distinct (map SurveyQuestionModel_in.id' qs) \<longrightarrow>
      isl (SurveyCreateModel w p)) \<and>
   (\<forall>qs q cs. SurveySharedModel_in.questions p = Some qs \<and> q \<in> set qs \<and>
      SurveyQuestionModel_in.choices q = Some cs \<and>
      \<not> distinct (map SurveyChoicesModel_in.id' cs) \<longrightarrow>
      isl (SurveyCreateModel w p)) \<and>
   (\<forall>qs. SurveySharedModel_in.questions p = Some qs \<and> length qs \<le> 128 \<and>
      (\<forall>q \<in> set qs. \<not> isl (SurveyQuestionModel w q)) \<and>
      \<not> distinct (map SurveyQuestionModel_in.id' qs) \<longrightarrow>
      ValueError ''Duplicate question ids'' \<in> set (errs (SurveyCreateModel w p))) \<and>
   (\<forall>qs q cs. SurveySharedModel_in.questions p = Some qs \<and> length qs \<le> 128 \<and> q \<in> set qs \<and>
      SurveyQuestionModel_in.choices q = Some cs \<and> length cs \<le> 56 \<and>
      (\<forall>c \<in> set cs. \<not> isl (SurveyChoicesModel w c)) \<and>
      \<not> distinct (map SurveyChoicesModel_in.id' cs) \<longrightarrow>
      ValueError ''Duplicate choices ids'' \<in> set (errs (SurveyCreateModel w p)))"
proof -
  have 1: "\<forall>m. SurveyCreateModel w p = Inr m \<longrightarrow>
      (\<exists>qs. SurveySharedModel_in.questions p = Some qs \<and> length qs \<le> 128 \<and>
         distinct (map SurveyQuestionModel_in.id' qs) \<and>
         (\<forall>q \<in> set qs.
            (\<exists>i. SurveyQuestionModel_in.id' q = Some i \<and> 0 \<le> i \<and> i < 1024) \<and>
            (\<forall>cs. SurveyQuestionModel_in.choices q = Some cs \<longrightarrow>
               length cs \<le> 56 \<and> distinct (map SurveyChoicesModel_in.id' cs) \<and>
               (\<forall>c \<in> set cs.
                  \<exists>j. SurveyChoicesModel_in.id' c = Some j \<and> 0 \<le> j \<and> j < 1024))))"
    using create_accepted [of w p] by blast
  have 2: "isl (SurveyCreateModel w p)"
    if "SurveySharedModel_in.questions p = Some qs"
      "\<not> distinct (map SurveyQuestionModel_in.id' qs)" for qs
  proof (rule ccontr)
    assume "\<not> isl (SurveyCreateModel w p)"
    then obtain m where "SurveyCreateModel w p = Inr m"
      by (cases "SurveyCreateModel w p") auto
    from create_accepted [OF this] that show False by auto
  qed
  have 3: "isl (SurveyCreateModel w p)"
    if "SurveySharedModel_in.questions p = Some qs" "q \<in> set qs"
      "SurveyQuestionModel_in.choices q = Some cs"
      "\<not> distinct (map SurveyChoicesModel_in.id' cs)" for qs q cs
  proof (rule ccontr)
    assume "\<not> isl (SurveyCreateModel w p)"
    then obtain m where "SurveyCreateModel w p = Inr m"
      by (cases "SurveyCreateModel w p") auto
    from create_accepted [OF this] that show False by auto
  qed
  from 1 2 3 duplicate_question_ids [of p _ w] duplicate_choice_ids [of p _ _ _ w]
  show ?thesis by blast
qed

theorem SurveyCreateModel_ids_witness:
  "SurveyCreateModel window_S payload_S = Inr (SurveyCreateModel.truncate survey_S) \<and>
   (\<exists>qs. SurveySharedModel_in.questions payload_S = Some qs \<and> length qs \<le> 128 \<and>
      distinct (map SurveyQuestionModel_in.id' qs)) \<and>
   ValueError ''Duplicate question ids'' \<in> set (errs (SurveyCreateModel window_S payload_dup))"
proof -
  note a = SurveyCreateModel_ids [of window_S payload_S, THEN conjunct1, rule_format,
      OF payload_S_accepted]
  have "SurveySharedModel_in.questions payload_dup
          = Some [SurveyQuestionModel_dict question_S, SurveyQuestionModel_dict question_S] \<and>
        length [SurveyQuestionModel_dict question_S, SurveyQuestionModel_dict question_S] \<le> 128 \<and>
        (\<forall>q \<in> set [SurveyQuestionModel_dict question_S, SurveyQuestionModel_dict question_S].
           \<not> isl (SurveyQuestionModel window_S q)) \<and>
        \<not> distinct (map SurveyQuestionModel_in.id'
           [SurveyQuestionModel_dict question_S, SurveyQuestionModel_dict question_S])"
    by (simp add: payload_dup_def question_S_accepted)
  note b = SurveyCreateModel_ids [of window_S payload_dup, THEN conjunct2, THEN conjunct2,
      THEN conjunct2, THEN conjunct1, rule_format, OF this]
  from a b payload_S_accepted show ?thesis by blast
qed

lemma Envelope_roundtrip:
  "Envelope_model w n p = Inr e \<Longrightarrow> Envelope_model w n (Envelope_dict e) = Inr e"
  by (auto simp: Envelope_model_Inr_iff Envelope_dict_def)

lemma required_roundtrip:
  assumes "required_field v chk = Inr r"
    and "\<And>x. chk x = Inr r \<Longrightarrow> chk (d r) = Inr r"
  shows "required_field (Some (d r)) chk = Inr r"
  using assms by (auto simp: required_field_Inr_iff)

lemma optional_roundtrip:
  assumes "optional_field v chk = Inr r"
    and "\<And>x y. chk x = Inr y \<Longrightarrow> chk (d y) = Inr y"
  shows "optional_field (map_option d r) chk = Inr r"
  using assms by (auto simp: optional_field_Inr_iff)

lemma default_roundtrip:
  "default_field dflt v any = Inr r \<Longrightarrow> default_field dflt' (Some r) any = Inr r"
  by (simp add: default_field_def any_def)

lemma items_roundtrip:
  assumes "list_all2 (\<lambda>x y. chk x = Inr y) xs ys"
    and "\<And>x y. chk x = Inr y \<Longrightarrow> chk (d y) = Inr y"
  shows "list_all2 (\<lambda>x y. chk x = Inr y) (map d ys) ys"
  using assms(1)
  by (induction xs ys rule: list_all2_induct) (auto intro: assms(2))

lemma SurveyChoicesModel_roundtrip:
  "SurveyChoicesModel w p = Inr c \<Longrightarrow> SurveyChoicesModel w (SurveyChoicesModel_dict c) = Inr c"
  by (auto simp: SurveyChoicesModel_Inr_iff SurveyChoicesModel_dict_def)

lemma SurveySignKeyPairModel_roundtrip:
  "SurveySignKeyPairModel w p = Inr k \<Longrightarrow>
   SurveySignKeyPairModel w (SurveySignKeyPairModel_dict k) = Inr k"
  by (auto simp: SurveySignKeyPairModel_Inr_iff SurveySignKeyPairModel_dict_def)

lemma SurveyKeypairModel_fields:
  "SurveyKeypairModel w p = Inr k \<longleftrightarrow>
     required_field (SurveyPublicKeyModel_in.public_key p) (SurveyKeypairCipherModel w)
       = Inr (SurveyPublicKeyModel.public_key k) \<and>
     required_field (SurveyKeypairModel_in.private_key p) (SurveyKeypairCipherModel w)
       = Inr (SurveyKeypairModel.private_key k)"
  unfolding SurveyKeypairModel_def field_Inr_iff
  by (cases k) auto

lemma SurveyKeypairModel_roundtrip:
  assumes "SurveyKeypairModel w p = Inr k"
  shows "SurveyKeypairModel w (SurveyKeypairModel_dict k) = Inr k"
  using assms
  by (auto simp: SurveyKeypairModel_fields SurveyKeypairModel_dict_def
      SurveyKeypairCipherModel_def intro!: required_roundtrip Envelope_roundtrip)

lemma max_items_roundtrip:
  assumes "max_items n chk xs = Inr ys"
    and "\<And>x y. chk x = Inr y \<Longrightarrow> chk (d y) = Inr y"
  shows "max_items n chk (map d ys) = Inr ys"
proof -
  from assms(1) have l: "length xs \<le> n" and a: "list_all2 (\<lambda>x y. chk x = Inr y) xs ys"
    by (simp_all add: max_items_Inr_iff)
  from a have "length ys = length xs" by (simp add: list_all2_lengthD)
  with l items_roundtrip [OF a assms(2)] show ?thesis
    by (simp add: max_items_Inr_iff)
qed

lemma SurveyQuestionModel_roundtrip:
  assumes "SurveyQuestionModel w p = Inr y"
  shows "SurveyQuestionModel w (SurveyQuestionModel_dict y) = Inr y"
proof -
  note f = assms [unfolded SurveyQuestionModel_fields]
  from f have 1: "required_field (Some (SurveyQuestionModel.id' y)) (ge_lt 0 1024)
      = Inr (SurveyQuestionModel.id' y)"
    by (auto simp: required_field_Inr_iff ge_lt_Inr_iff)
  from f have 2: "optional_field (map_option Envelope_dict (SurveyQuestionModel.regex y))
      (SurveyRegexModel w) = Inr (SurveyQuestionModel.regex y)"
    by (auto simp: SurveyRegexModel_def intro: optional_roundtrip Envelope_roundtrip)
  from f have 3: "optional_field (map_option Envelope_dict (SurveyQuestionModel.description y))
      (SurveyDescriptionModel w) = Inr (SurveyQuestionModel.description y)"
    by (auto simp: SurveyDescriptionModel_def intro: optional_roundtrip Envelope_roundtrip)
  from f have 4: "required_field (Some (Envelope_dict (SurveyQuestionModel.question y)))
      (SurveyQuestionsModel w) = Inr (SurveyQuestionModel.question y)"
    by (auto simp: SurveyQuestionsModel_def intro: required_roundtrip Envelope_roundtrip)
  from f obtain v where v: "optional_field (SurveyQuestionModel_in.choices p)
        (max_items 56 (SurveyChoicesModel w)) = Inr v"
      "choices_validator v = Inr (SurveyQuestionModel.choices y)"
    by (auto simp: validator_Inr_iff)
  from v(2) have v_eq: "v = SurveyQuestionModel.choices y"
    by (simp add: choices_validator_Inr_iff)
  have "optional_field (map_option (map SurveyChoicesModel_dict) v)
      (max_items 56 (SurveyChoicesModel w)) = Inr v"
    by (rule optional_roundtrip [OF v(1)])
      (erule max_items_roundtrip, erule SurveyChoicesModel_roundtrip)
  with v(2) v_eq have 5: "validator choices_validator
      (optional_field (map_option (map SurveyChoicesModel_dict) (SurveyQuestionModel.choices y))
         (max_items 56 (SurveyChoicesModel w))) = Inr (SurveyQuestionModel.choices y)"
    by (simp add: validator_Inr_iff)
  from f have 6: "default_field False (Some (SurveyQuestionModel.required y)) any
      = Inr (SurveyQuestionModel.required y)"
    by (simp add: default_field_def any_def)
  have 7: "required_field (Some (SurveyQuestionType_value (SurveyQuestionModel.type y)))
      SurveyQuestionType = Inr (SurveyQuestionModel.type y)"
    by (simp add: required_field_Inr_iff SurveyQuestionType_Inr_iff)
  from 1 2 3 4 5 6 7 show ?thesis
    by (simp add: SurveyQuestionModel_fields SurveyQuestionModel_dict_def)
qed

lemma SurveySharedModel_roundtrip:
  assumes "SurveySharedModel w p = Inr (SurveySharedModel.truncate m)"
  shows "SurveySharedModel w (SurveyCreateModel_dict m) = Inr (SurveySharedModel.truncate m)"
proof -
  note f = assms [unfolded SurveySharedModel_fields, simplified SurveySharedModel.truncate_def,
      simplified]
  from f have 1: "required_field (Some (Envelope_dict (SurveySharedModel.title m))) (TitleModel w)
      = Inr (SurveySharedModel.title m)"
    by (auto simp: TitleModel_def intro: required_roundtrip Envelope_roundtrip)
  from f have 2: "optional_field (map_option Envelope_dict (SurveySharedModel.description m))
      (SurveyDescriptionModel w) = Inr (SurveySharedModel.description m)"
    by (auto simp: SurveyDescriptionModel_def intro: optional_roundtrip Envelope_roundtrip)
  from f obtain qs where qs: "SurveySharedModel_in.questions p = Some qs"
      "max_items 128 (SurveyQuestionModel w) qs = Inr (SurveySharedModel.questions m)"
      "distinct (map SurveyQuestionModel.id' (SurveySharedModel.questions m))"
    by (auto simp: validator_Inr_iff required_field_Inr_iff questions_validator_Inr_iff)
  have "max_items 128 (SurveyQuestionModel w)
      (map SurveyQuestionModel_dict (SurveySharedModel.questions m))
      = Inr (SurveySharedModel.questions m)"
    by (rule max_items_roundtrip [OF qs(2)]) (erule SurveyQuestionModel_roundtrip)
  with qs(3) have 3: "validator questions_validator
      (required_field (Some (map SurveyQuestionModel_dict (SurveySharedModel.questions m)))
         (max_items 128 (SurveyQuestionModel w))) = Inr (SurveySharedModel.questions m)"
    by (simp add: validator_Inr_iff required_field_Inr_iff questions_validator_Inr_iff)
  from f have 4: "required_field (Some (SurveySharedModel.signature m)) (max_length 128)
      = Inr (SurveySharedModel.signature m)"
    by (auto simp: required_field_Inr_iff max_length_Inr_iff)
  from 1 2 3 4 show ?thesis
    by (simp add: SurveySharedModel_fields SurveyCreateModel_dict_def
        SurveySharedModel.truncate_def default_field_def any_def)
qed

lemma SurveyCreateModel_roundtrip:
  assumes "SurveyCreateModel w p = Inr c"
  shows "SurveyCreateModel w (SurveyCreateModel_dict c) = Inr c"
proof -
  note f = assms [unfolded SurveyCreateModel_fields]
  from f have 1: "SurveySharedModel w (SurveyCreateModel_dict c)
      = Inr (SurveySharedModel.truncate c)"
    by (auto intro: SurveySharedModel_roundtrip)
  from f have 2: "required_field
      (Some (SurveySignKeyPairModel_dict (SurveyCreateModel.sign_keypair c)))
      (SurveySignKeyPairModel w) = Inr (SurveyCreateModel.sign_keypair c)"
    by (auto intro: required_roundtrip SurveySignKeyPairModel_roundtrip)
  from f have 3: "required_field (Some (Envelope_dict (SurveyCreateModel.secret_key c)))
      (SurveySecretKeyModel w) = Inr (SurveyCreateModel.secret_key c)"
    by (auto simp: SurveySecretKeyModel_def intro: required_roundtrip Envelope_roundtrip)
  from f have 4: "required_field (Some (SurveyKeypairModel_dict (SurveyCreateModel.keypair c)))
      (SurveyKeypairModel w) = Inr (SurveyCreateModel.keypair c)"
    by (auto intro: required_roundtrip SurveyKeypairModel_roundtrip)
  from 1 2 3 4 show ?thesis
    unfolding SurveyCreateModel_fields [of w "SurveyCreateModel_dict c" c]
    by (simp add: SurveyCreateModel_dict_def)
qed

lemma SurveyCreateModel_dict_truncate:
  "SurveyCreateModel_dict (SurveyCreateModel.truncate m) = SurveyCreateModel_dict m"
  by (simp add: SurveyCreateModel_dict_def SurveyCreateModel.truncate_def)

lemma SurveyCreateModel_ignores_extra:
  "SurveyCreateModel w (SurveyModel_dict m) = SurveyCreateModel w (SurveyCreateModel_dict m)"
  by (simp add: SurveyCreateModel_def SurveySharedModel_def SurveyModel_dict_def
      SurveyCreateModel_dict_def)

text \<open>
  C9: validating the serialisation of a validated survey again through the create model
  succeeds and gives the same aggregate back. This holds for the output of the create
  validation itself, and for a full survey validated from a stored document: its
  serialisation, whose identity keys the create model ignores, validates to its create
  part, and validating the serialisation of that result once more changes nothing.
\<close>

theorem revalidation_roundtrip:
  "(\<forall>c. SurveyCreateModel w p = Inr c \<longrightarrow>
      SurveyCreateModel w (SurveyCreateModel_dict c) = Inr c) \<and>
   (\<forall>m. SurveyModel w d = Inr m \<longrightarrow>
      SurveyCreateModel w (SurveyModel_dict m) = Inr (SurveyCreateModel.truncate m) \<and>
      SurveyCreateModel w (SurveyCreateModel_dict (SurveyCreateModel.truncate m))
        = Inr (SurveyCreateModel.truncate m))"
proof (intro conjI allI impI)
  fix c assume "SurveyCreateModel w p = Inr c"
  then show "SurveyCreateModel w (SurveyCreateModel_dict c) = Inr c"
    by (rule SurveyCreateModel_roundtrip)
next
  fix m assume "SurveyModel w d = Inr m"
  then have "SurveyCreateModel w d = Inr (SurveyCreateModel.truncate m)"
    by (simp add: SurveyModel_fields)
  from SurveyCreateModel_roundtrip [OF this]
  show "SurveyCreateModel w (SurveyCreateModel_dict (SurveyCreateModel.truncate m))
        = Inr (SurveyCreateModel.truncate m)" .
  then show "SurveyCreateModel w (SurveyModel_dict m) = Inr (SurveyCreateModel.truncate m)"
    by (simp add: SurveyCreateModel_ignores_extra SurveyCreateModel_dict_truncate)
qed

lemma doc_S_accepted:
  "SurveyModel window_S doc_S = Inr (SurveyModel.truncate survey_S)"
proof -
  have "SurveyCreateModel window_S doc_S = SurveyCreateModel window_S payload_S"
    by (simp add: doc_S_def payload_S_def SurveyCreateModel_ignores_extra
        SurveyCreateModel_dict_def SurveyModel.truncate_def)
  then have "SurveyCreateModel window_S doc_S = Inr (SurveyCreateModel.truncate survey_S)"
    by (simp add: payload_S_accepted)
  then show ?thesis
    by (simp add: SurveyModel_fields doc_S_def SurveyModel_dict_def SurveyModel.truncate_def
        SurveyCreateModel.truncate_def)
qed

theorem revalidation_roundtrip_witness:
  "SurveyCreateModel window_S payload_S = Inr (SurveyCreateModel.truncate survey_S) \<and>
   SurveyCreateModel window_S (SurveyCreateModel_dict (SurveyCreateModel.truncate survey_S))
     = Inr (SurveyCreateModel.truncate survey_S) \<and>
   SurveyModel window_S doc_S = Inr (SurveyModel.truncate survey_S) \<and>
   SurveyCreateModel window_S (SurveyModel_dict (SurveyModel.truncate survey_S))
     = Inr (SurveyCreateModel.truncate (SurveyModel.truncate survey_S))"
proof -
  note a = revalidation_roundtrip [of window_S payload_S doc_S, THEN conjunct1, rule_format,
      OF payload_S_accepted]
  note b = revalidation_roundtrip [of window_S payload_S doc_S, THEN conjunct2, rule_format,
      OF doc_S_accepted, THEN conjunct1]
  from a b payload_S_accepted doc_S_accepted show ?thesis by blast
qed


subsection \<open>The account example\<close>


lemma user_doc_S_accepted: "\<not> isl (UserModel schema_S user_doc_S)"
  by (simp add: UserModel_def CreateUserShared_def OtpModel_def EmailStr_def
      AccountAuthModal_def AccountX25519Model_def AccountEd25199Modal_def
      AccountKeychainModal_def Envelope_model_def Argon2Modal_def RFC_9106_LOW_MEMORY_def
      schema_S_def user_doc_S_def window_S_def iv_S_def
      field_def required_field_def default_field_def any_def max_length_def ge_le_def
      IvField_iv_def)


end
